theory Spec2Isabelle
  imports Complex_Main "HOL-Library.Word"
begin

unbundle bit_operations_syntax

section \<open>Vectors\<close>

text \<open>
  The renderer computes with C++ \<open>double\<close>. The embedding idealises a \<open>double\<close> as a
  \<^typ>\<open>real\<close>: comparisons, copies and field arithmetic are those of the source, rounding,
  infinities and NaN are not represented.
\<close>

datatype Double2 = Double2 (x2: real) (y2: real)

datatype Double3 = Double3 (x3: real) (y3: real) (z3: real)

datatype Double4 = Double4 (x4: real) (y4: real) (z4: real) (w4: real)

text \<open>
  Modelled from the spec: \<open>Vector2::lerp\<close> and \<open>Vector4::lerp\<close> (Math/Vector2.h and
  Math/Vector4.h are not among the sources). The spec calls them linear interpolation of
  the clip-space position and of the UV, from the receiver towards the argument.
\<close>

definition Double2_lerp :: "Double2 \<Rightarrow> Double2 \<Rightarrow> real \<Rightarrow> Double2" where
  "Double2_lerp a b percent =
     Double2 (x2 a + (x2 b - x2 a) * percent) (y2 a + (y2 b - y2 a) * percent)"

definition Double4_lerp :: "Double4 \<Rightarrow> Double4 \<Rightarrow> real \<Rightarrow> Double4" where
  "Double4_lerp a b percent =
     Double4 (x4 a + (x4 b - x4 a) * percent) (y4 a + (y4 b - y4 a) * percent)
             (z4 a + (z4 b - z4 a) * percent) (w4 a + (w4 b - w4 a) * percent)"

section \<open>Vertex shading\<close>

text \<open>
  Modelled from the spec: \<open>Matrix4d\<close> and its product with a vector (Math/Matrix4.h is not
  among the sources), as the spec's \<open>clipPos = mvp * vertex\<close>. A matrix is given by its
  four rows.
\<close>

datatype Matrix4d = Matrix4d (row0: Double4) (row1: Double4) (row2: Double4) (row3: Double4)

definition Double4_dot :: "Double4 \<Rightarrow> Double4 \<Rightarrow> real" where
  "Double4_dot a b = x4 a * x4 b + y4 a * y4 b + z4 a * z4 b + w4 a * w4 b"

definition Matrix4d_mul :: "Matrix4d \<Rightarrow> Double4 \<Rightarrow> Double4" where
  "Matrix4d_mul m v =
     Double4 (Double4_dot (row0 m) v) (Double4_dot (row1 m) v)
             (Double4_dot (row2 m) v) (Double4_dot (row3 m) v)"

definition VertexShader_Basic :: "Double3 \<Rightarrow> Matrix4d \<Rightarrow> Double4" where
  "VertexShader_Basic vertex mvpMatrix =
     Matrix4d_mul mvpMatrix (Double4 (x3 vertex) (y3 vertex) (z3 vertex) 1)"

definition VertexShader_Entity :: "Double3 \<Rightarrow> Matrix4d \<Rightarrow> Double4" where
  "VertexShader_Entity vertex mvpMatrix =
     Matrix4d_mul mvpMatrix (Double4 (x3 vertex) (y3 vertex) (z3 vertex) 1)"

text \<open>
  A perspective projection with a vertical field of view of 90 degrees, aspect ratio 1,
  near plane 1 and far plane 3, for a camera at the origin looking along \<open>-z\<close>.
\<close>

definition perspectiveNear1Far3 :: Matrix4d where
  "perspectiveNear1Far3 =
     Matrix4d (Double4 1 0 0 0) (Double4 0 1 0 0) (Double4 0 0 (- 2) (- 3)) (Double4 0 0 (- 1) 0)"

section \<open>Clipping a triangle against one frustum plane\<close>

text \<open>
  One entry of the clip scratch arrays: the three clip-space vertices and the three texture
  coordinates stored at one index of \<open>g_clipSpaceTriangleV0s\<close> .. \<open>g_clipSpaceTriangleUV2s\<close>
  (and of \<open>g_clipResultV0s\<close> .. \<open>g_clipResultUV2s\<close>).
\<close>

datatype ClipTriangle = ClipTriangle
  (triV0: Double4) (triV1: Double4) (triV2: Double4)
  (triUV0: Double2) (triUV1: Double2) (triUV2: Double2)

text \<open>The \<open>switch (clipPlaneIndex)\<close> of \<open>ProcessClipSpaceTriangle\<close>: the difference tested.\<close>

definition clipPlaneDiff :: "int \<Rightarrow> Double4 \<Rightarrow> real" where
  "clipPlaneDiff clipPlaneIndex v =
     (if clipPlaneIndex = 0 then x4 v - (- w4 v)
      else if clipPlaneIndex = 1 then x4 v - w4 v
      else if clipPlaneIndex = 2 then y4 v - (- w4 v)
      else if clipPlaneIndex = 3 then y4 v - w4 v
      else if clipPlaneIndex = 4 then z4 v - (- w4 v)
      else z4 v - w4 v)"

text \<open>Planes 0, 2, 4 test \<open>diff >= 0.0\<close>, planes 1, 3, 5 test \<open>diff <= 0.0\<close>.\<close>

definition clipPlaneInside :: "int \<Rightarrow> real \<Rightarrow> bool" where
  "clipPlaneInside clipPlaneIndex diff =
     (if clipPlaneIndex = 0 \<or> clipPlaneIndex = 2 \<or> clipPlaneIndex = 4 then diff \<ge> 0
      else diff \<le> 0)"

text \<open>
  \<open>swGeometry::ProcessClipSpaceTriangle\<close>. The source returns the number of result
  triangles and leaves them in \<open>g_clipResult*[0 .. count-1]\<close>; the model returns that
  prefix as a list, so the returned count is the length of the list. The three
  interpolation percents and points are named once here; each branch uses the two that
  the source computes in that branch.
\<close>

definition ProcessClipSpaceTriangle ::
  "Double4 \<Rightarrow> Double4 \<Rightarrow> Double4 \<Rightarrow> Double2 \<Rightarrow> Double2 \<Rightarrow> Double2 \<Rightarrow> int \<Rightarrow> ClipTriangle list" where
  "ProcessClipSpaceTriangle v0 v1 v2 uv0 uv1 uv2 clipPlaneIndex =
    (if clipPlaneIndex < 0 \<or> 5 < clipPlaneIndex then []
     else
      let v0Diff = clipPlaneDiff clipPlaneIndex v0;
          v1Diff = clipPlaneDiff clipPlaneIndex v1;
          v2Diff = clipPlaneDiff clipPlaneIndex v2;
          isV0Inside = clipPlaneInside clipPlaneIndex v0Diff;
          isV1Inside = clipPlaneInside clipPlaneIndex v1Diff;
          isV2Inside = clipPlaneInside clipPlaneIndex v2Diff;
          v0v1PointT = v0Diff / (v0Diff - v1Diff);
          v1v2PointT = v1Diff / (v1Diff - v2Diff);
          v2v0PointT = v2Diff / (v2Diff - v0Diff);
          v0v1Point = Double4_lerp v0 v1 v0v1PointT;
          v1v2Point = Double4_lerp v1 v2 v1v2PointT;
          v2v0Point = Double4_lerp v2 v0 v2v0PointT;
          v0v1PointUV = Double2_lerp uv0 uv1 v0v1PointT;
          v1v2PointUV = Double2_lerp uv1 uv2 v1v2PointT;
          v2v0PointUV = Double2_lerp uv2 uv0 v2v0PointT
      in
      if isV0Inside then
        (if isV1Inside then
          (if isV2Inside then
             [ClipTriangle v0 v1 v2 uv0 uv1 uv2]
           else
             [ClipTriangle v0 v1 v1v2Point uv0 uv1 v1v2PointUV,
              ClipTriangle v1v2Point v2v0Point v0 v1v2PointUV v2v0PointUV uv0])
         else
          (if isV2Inside then
             [ClipTriangle v0 v0v1Point v1v2Point uv0 v0v1PointUV v1v2PointUV,
              ClipTriangle v1v2Point v2 v0 v1v2PointUV uv2 uv0]
           else
             [ClipTriangle v0 v0v1Point v2v0Point uv0 v0v1PointUV v2v0PointUV]))
      else
        (if isV1Inside then
          (if isV2Inside then
             [ClipTriangle v0v1Point v1 v2 v0v1PointUV uv1 uv2,
              ClipTriangle v2 v2v0Point v0v1Point uv2 v2v0PointUV v0v1PointUV]
           else
             [ClipTriangle v0v1Point v1 v1v2Point v0v1PointUV uv1 v1v2PointUV])
         else
          (if isV2Inside then
             [ClipTriangle v1v2Point v2 v2v0Point v1v2PointUV uv2 v2v0PointUV]
           else
             [])))"

section \<open>The per-triangle clip list\<close>

text \<open>
  Modelled from the spec: how a call ends without returning. \<open>DebugAssert\<close> and
  \<open>DebugNotImplementedMsg\<close> (components/debug/Debug.h is not among the sources) halt
  execution, and reading a pool with a handle that is not allocated is undefined.
\<close>

datatype Halt = DebugAssertFailed | DebugNotImplemented | InvalidHandle

definition MAX_CLIPPED_TRIANGLE_TRIANGLES :: nat where
  "MAX_CLIPPED_TRIANGLE_TRIANGLES = 64"

text \<open>
  The inner copy loop of \<open>ProcessMeshForRasterization\<close> (over \<open>clipResultIndex\<close>). The
  scratch arrays \<open>g_clipSpaceTriangle*\<close> have \<open>MAX_CLIPPED_TRIANGLE_TRIANGLES\<close> entries of
  which the first \<open>clipListSize\<close> are meaningful; the model keeps exactly those, so
  \<open>clipListSize\<close> is the length of the list and the write at
  \<open>clipResultWriteIndex = clipListSize + clipResultIndex\<close> is an append at that index,
  guarded by \<open>DebugAssert(clipResultWriteIndex < MAX_CLIPPED_TRIANGLE_TRIANGLES)\<close>.
\<close>

fun writeClipResults :: "ClipTriangle list \<Rightarrow> ClipTriangle list \<Rightarrow> Halt + ClipTriangle list" where
  "writeClipResults clipSpaceTriangles [] = Inr clipSpaceTriangles"
| "writeClipResults clipSpaceTriangles (r # rs) =
     (let clipResultWriteIndex = length clipSpaceTriangles in
      if clipResultWriteIndex < MAX_CLIPPED_TRIANGLE_TRIANGLES
      then writeClipResults (clipSpaceTriangles @ [r]) rs
      else Inl DebugAssertFailed)"

text \<open>
  The loop \<open>for (triangleToClip = trianglesToClipCount; triangleToClip > 0; triangleToClip--)\<close>:
  the state is the clip list and \<open>clipListFrontIndex\<close>.
\<close>

fun clipTrianglesToClip ::
  "nat \<Rightarrow> int \<Rightarrow> ClipTriangle list \<times> nat \<Rightarrow> Halt + (ClipTriangle list \<times> nat)" where
  "clipTrianglesToClip 0 clipPlaneIndex st = Inr st"
| "clipTrianglesToClip (Suc triangleToClip) clipPlaneIndex (clipSpaceTriangles, clipListFrontIndex) =
     (if \<not> clipListFrontIndex < MAX_CLIPPED_TRIANGLE_TRIANGLES then Inl DebugAssertFailed
      else
        let current = clipSpaceTriangles ! clipListFrontIndex;
            clipResults = ProcessClipSpaceTriangle (triV0 current) (triV1 current) (triV2 current)
                            (triUV0 current) (triUV1 current) (triUV2 current) clipPlaneIndex
        in case writeClipResults clipSpaceTriangles clipResults of
             Inl e \<Rightarrow> Inl e
           | Inr clipSpaceTriangles' \<Rightarrow>
               clipTrianglesToClip triangleToClip clipPlaneIndex
                 (clipSpaceTriangles', Suc clipListFrontIndex))"

text \<open>The loop over \<open>clipPlaneIndex\<close>.\<close>

fun clipAgainstPlanes ::
  "int list \<Rightarrow> ClipTriangle list \<times> nat \<Rightarrow> Halt + (ClipTriangle list \<times> nat)" where
  "clipAgainstPlanes [] st = Inr st"
| "clipAgainstPlanes (clipPlaneIndex # rest) (clipSpaceTriangles, clipListFrontIndex) =
     (let trianglesToClipCount = length clipSpaceTriangles - clipListFrontIndex in
      case clipTrianglesToClip trianglesToClipCount clipPlaneIndex
             (clipSpaceTriangles, clipListFrontIndex) of
        Inl e \<Rightarrow> Inl e
      | Inr st' \<Rightarrow> clipAgainstPlanes rest st')"

text \<open>
  The clipping pass of \<open>ProcessMeshForRasterization\<close> for one vertex-shaded triangle: the
  list is seeded with the triangle, clipped against planes 0..5, and the entries from
  \<open>clipListFrontIndex\<close> on are what is appended to the clip-space mesh.
\<close>

definition clipShadedTriangle :: "ClipTriangle \<Rightarrow> Halt + ClipTriangle list" where
  "clipShadedTriangle shaded =
     (case clipAgainstPlanes [0, 1, 2, 3, 4, 5] ([shaded], 0) of
        Inl e \<Rightarrow> Inl e
      | Inr (clipSpaceTriangles, clipListFrontIndex) \<Rightarrow>
          Inr (drop clipListFrontIndex clipSpaceTriangles))"

subsection \<open>Specification functions for the clip list\<close>

text \<open>
  Auxiliary functions used to state and prove properties of the clip list; they are not in
  the source. \<open>clipTriangle\<close> is \<open>ProcessClipSpaceTriangle\<close> on a stored entry,
  \<open>clipLive\<close> clips every entry between the front index and the end of the list,
  \<open>liveAfter\<close> and \<open>totalNew\<close> give the entries left and the number of entries appended
  after a sequence of planes, and \<open>clipListGrowth k n\<close> bounds the entries \<open>k\<close> planes can
  append to \<open>n\<close> triangles at two results per triangle and plane.
\<close>

definition clipTriangle :: "int \<Rightarrow> ClipTriangle \<Rightarrow> ClipTriangle list" where
  "clipTriangle clipPlaneIndex t =
     ProcessClipSpaceTriangle (triV0 t) (triV1 t) (triV2 t) (triUV0 t) (triUV1 t) (triUV2 t)
       clipPlaneIndex"

definition clipLive :: "int \<Rightarrow> ClipTriangle list \<Rightarrow> ClipTriangle list" where
  "clipLive clipPlaneIndex live = concat (map (clipTriangle clipPlaneIndex) live)"

definition vertexInside :: "int \<Rightarrow> Double4 \<Rightarrow> bool" where
  "vertexInside clipPlaneIndex v = clipPlaneInside clipPlaneIndex (clipPlaneDiff clipPlaneIndex v)"

definition allVerticesInside :: "int \<Rightarrow> ClipTriangle \<Rightarrow> bool" where
  "allVerticesInside p t = (vertexInside p (triV0 t) \<and> vertexInside p (triV1 t) \<and> vertexInside p (triV2 t))"


fun liveAfter :: "int list \<Rightarrow> ClipTriangle list \<Rightarrow> ClipTriangle list" where
  "liveAfter [] live = live"
| "liveAfter (p # ps) live = liveAfter ps (clipLive p live)"

fun totalNew :: "int list \<Rightarrow> ClipTriangle list \<Rightarrow> nat" where
  "totalNew [] live = 0"
| "totalNew (p # ps) live = length (clipLive p live) + totalNew ps (clipLive p live)"


section \<open>Projection and facing test of the rasterizer\<close>

definition Double2_sub :: "Double2 \<Rightarrow> Double2 \<Rightarrow> Double2" where
  "Double2_sub a b = Double2 (x2 a - x2 b) (y2 a - y2 b)"

text \<open>
  Modelled from the spec: \<open>Vector2::cross\<close> (Math/Vector2.h is not among the sources), the
  edge cross product from which the rasterizer computes the signed area.
\<close>

definition Double2_cross :: "Double2 \<Rightarrow> Double2 \<Rightarrow> real" where
  "Double2_cross a b = x2 a * y2 b - y2 a * x2 b"

text \<open>
  Modelled from the spec: \<open>RendererUtils::clipSpaceToNDC\<close> and
  \<open>RendererUtils::ndcToScreenSpace\<close> (RendererUtils is not among the sources): NDC is clip
  space divided by \<open>w\<close>, and screen space is \<open>(ndc.xy * 0.5 + 0.5) * framebufferSize\<close> with
  \<open>y\<close> possibly flipped; whether it is flipped is the parameter \<open>flipY\<close>.
\<close>

definition clipSpaceToNDC :: "Double4 \<Rightarrow> Double3" where
  "clipSpaceToNDC clip = Double3 (x4 clip / w4 clip) (y4 clip / w4 clip) (z4 clip / w4 clip)"

definition ndcToScreenSpace :: "bool \<Rightarrow> Double3 \<Rightarrow> real \<Rightarrow> real \<Rightarrow> Double2" where
  "ndcToScreenSpace flipY ndc frameWidth frameHeight =
     Double2 ((0.5 + x3 ndc * 0.5) * frameWidth)
             ((if flipY then 0.5 - y3 ndc * 0.5 else 0.5 + y3 ndc * 0.5) * frameHeight)"

text \<open>
  The start of the per-triangle body of \<open>swRender::RasterizeTriangles\<close>: the sum of the
  three edge cross products, whose sign decides \<open>isFrontFacing\<close>.
\<close>

definition screenSpaceSignedArea ::
  "bool \<Rightarrow> real \<Rightarrow> real \<Rightarrow> Double4 \<Rightarrow> Double4 \<Rightarrow> Double4 \<Rightarrow> real" where
  "screenSpaceSignedArea flipY frameBufferWidthReal frameBufferHeightReal clip0 clip1 clip2 =
     (let ndc0 = clipSpaceToNDC clip0;
          ndc1 = clipSpaceToNDC clip1;
          ndc2 = clipSpaceToNDC clip2;
          screenSpace0 = ndcToScreenSpace flipY ndc0 frameBufferWidthReal frameBufferHeightReal;
          screenSpace1 = ndcToScreenSpace flipY ndc1 frameBufferWidthReal frameBufferHeightReal;
          screenSpace2 = ndcToScreenSpace flipY ndc2 frameBufferWidthReal frameBufferHeightReal;
          screenSpace01 = Double2_sub screenSpace1 screenSpace0;
          screenSpace12 = Double2_sub screenSpace2 screenSpace1;
          screenSpace20 = Double2_sub screenSpace0 screenSpace2;
          screenSpace01Cross12 = Double2_cross screenSpace12 screenSpace01;
          screenSpace12Cross20 = Double2_cross screenSpace20 screenSpace12;
          screenSpace20Cross01 = Double2_cross screenSpace01 screenSpace20
      in screenSpace01Cross12 + screenSpace12Cross20 + screenSpace20Cross01)"

definition isFrontFacing ::
  "bool \<Rightarrow> real \<Rightarrow> real \<Rightarrow> Double4 \<Rightarrow> Double4 \<Rightarrow> Double4 \<Rightarrow> bool" where
  "isFrontFacing flipY frameBufferWidthReal frameBufferHeightReal clip0 clip1 clip2 =
     (screenSpaceSignedArea flipY frameBufferWidthReal frameBufferHeightReal clip0 clip1 clip2 > 0)"




section \<open>Per-pixel lighting\<close>

text \<open>\<open>static_cast<int>\<close> of a \<open>double\<close> truncates towards zero.\<close>

definition static_cast_int :: "real \<Rightarrow> int" where
  "static_cast_int r = (if r \<ge> 0 then \<lfloor>r\<rfloor> else \<lceil>r\<rceil>)"

text \<open>\<open>std::clamp(v, lo, hi)\<close>, at type \<open>int\<close> and at type \<open>double\<close>.\<close>

definition std_clamp :: "'a::linorder \<Rightarrow> 'a \<Rightarrow> 'a \<Rightarrow> 'a" where
  "std_clamp v lo hi = (if v < lo then lo else if hi < v then hi else v)"

definition Double3_sub :: "Double3 \<Rightarrow> Double3 \<Rightarrow> Double3" where
  "Double3_sub a b = Double3 (x3 a - x3 b) (y3 a - y3 b) (z3 a - z3 b)"

text \<open>
  Modelled from the spec: \<open>Vector3::length\<close> (Math/Vector3.h is not among the sources), the
  Euclidean distance the spec's light falloff is stated in.
\<close>

definition Double3_length :: "Double3 \<Rightarrow> real" where
  "Double3_length v = sqrt (x3 v * x3 v + y3 v * y3 v + z3 v * z3 v)"

record Light =
  worldPoint :: Double3
  startRadius :: real
  endRadius :: real

text \<open>The three-way branch on \<open>lightDistance\<close> in the light loop of \<open>RasterizeTriangles\<close>.\<close>

definition lightIntensity :: "real \<Rightarrow> Light \<Rightarrow> real" where
  "lightIntensity lightDistance light =
     (if lightDistance \<le> startRadius light then 1
      else if lightDistance \<ge> endRadius light then 0
      else std_clamp
             (1 - ((lightDistance - startRadius light) / (endRadius light - startRadius light)))
             0 1)"

text \<open>The intensity a light contributes at a shaded world-space point.\<close>

definition lightIntensityAt :: "Double3 \<Rightarrow> Light \<Rightarrow> real" where
  "lightIntensityAt shaderWorldSpacePointXYZ light =
     lightIntensity (Double3_length (Double3_sub (worldPoint light) shaderWorldSpacePointXYZ)) light"

text \<open>
  The loop over \<open>lightIndex\<close>, started with \<open>lightIntensitySum = ambientPercent\<close>: it adds
  each light's intensity and, once the sum reaches 1, stores 1 and leaves the loop.
\<close>

fun accumulateLights :: "real \<Rightarrow> Light list \<Rightarrow> Double3 \<Rightarrow> real" where
  "accumulateLights lightIntensitySum [] shaderWorldSpacePointXYZ = lightIntensitySum"
| "accumulateLights lightIntensitySum (light # rest) shaderWorldSpacePointXYZ =
     (let lightPointDiff = Double3_sub (worldPoint light) shaderWorldSpacePointXYZ;
          lightDistance = Double3_length lightPointDiff;
          lightIntensitySum' = lightIntensitySum + lightIntensity lightDistance light
      in if lightIntensitySum' \<ge> 1 then 1
         else accumulateLights lightIntensitySum' rest shaderWorldSpacePointXYZ)"

datatype RenderLightingType = PerMesh | PerPixel

definition computeLightIntensitySum ::
  "RenderLightingType \<Rightarrow> real \<Rightarrow> real \<Rightarrow> Light list \<Rightarrow> Double3 \<Rightarrow> real" where
  "computeLightIntensitySum lightingType meshLightPercent ambientPercent lights
       shaderWorldSpacePointXYZ =
     (case lightingType of
        PerPixel \<Rightarrow> accumulateLights ambientPercent lights shaderWorldSpacePointXYZ
      | PerMesh \<Rightarrow> meshLightPercent)"



definition DITHERING_MODE_NONE :: int where "DITHERING_MODE_NONE = 0"
definition DITHERING_MODE_CLASSIC :: int where "DITHERING_MODE_CLASSIC = 1"
definition DITHERING_MODE_MODERN :: int where "DITHERING_MODE_MODERN = 2"
definition DITHERING_MODE_MODERN_MASK_COUNT :: int where "DITHERING_MODE_MODERN_MASK_COUNT = 4"

text \<open>The \<open>switch (ditheringMode)\<close> that decides \<open>shouldDither\<close> for pixel \<open>(x, y)\<close>.\<close>

definition computeShouldDither ::
  "int \<Rightarrow> bool list \<Rightarrow> int \<Rightarrow> int \<Rightarrow> int \<Rightarrow> int \<Rightarrow> real \<Rightarrow> real \<Rightarrow> bool" where
  "computeShouldDither ditheringMode ditherBuffer frameBufferWidth frameBufferHeight x y
       lightIntensitySum lightLevelReal =
     (if ditheringMode = DITHERING_MODE_NONE then False
      else if ditheringMode = DITHERING_MODE_CLASSIC
        then ditherBuffer ! nat (x + (y * frameBufferWidth))
      else if ditheringMode = DITHERING_MODE_MODERN then
        (if lightIntensitySum < 1 then
           (let maskCount = DITHERING_MODE_MODERN_MASK_COUNT;
                lightLevelFraction = lightLevelReal - real_of_int \<lfloor>lightLevelReal\<rfloor>;
                maskIndex = std_clamp
                  (static_cast_int (real_of_int maskCount * lightLevelFraction)) 0 (maskCount - 1);
                ditherBufferIndex = x + (y * frameBufferWidth)
                                      + (maskIndex * frameBufferWidth * frameBufferHeight)
            in ditherBuffer ! nat ditherBufferIndex)
         else False)
      else False)"



text \<open>The light-table index every shader forms: \<open>texel + (lightLevel * texelsPerLightLevel)\<close>.\<close>

definition shadedTexelIndex :: "8 word \<Rightarrow> int \<Rightarrow> int \<Rightarrow> int" where
  "shadedTexelIndex texel lightLevel texelsPerLightLevel =
     uint texel + (lightLevel * texelsPerLightLevel)"

section \<open>Pixel shaders\<close>

text \<open>
  The constants and the predicate of \<open>ArenaRenderUtils\<close> that the pixel shaders use.
  ArenaRenderUtils.h is not among the sources, so their values are parameters of the model.
\<close>

record ArenaRenderUtils =
  PALETTE_INDEX_TRANSPARENT :: "8 word"
  PALETTE_INDEX_LIGHT_LEVEL_LOWEST :: "8 word"
  PALETTE_INDEX_LIGHT_LEVEL_SRC1 :: "8 word"
  PALETTE_INDEX_LIGHT_LEVEL_SRC2 :: "8 word"
  PALETTE_INDEX_LIGHT_LEVEL_DST1 :: "8 word"
  PALETTE_INDEX_LIGHT_LEVEL_DST2 :: "8 word"
  PALETTE_INDEX_PUDDLE_EVEN_ROW :: "8 word"
  isLightLevelTexel :: "8 word \<Rightarrow> bool"

datatype TextureSamplingType = Default | ScreenSpaceRepeatY

record PixelShaderPerspectiveCorrection =
  ndcZDepth :: real
  texelPercent :: Double2

record PixelShaderTexture =
  texels :: "8 word list"
  width :: int
  height :: int
  widthMinusOne :: int
  heightMinusOne :: int
  widthReal :: real
  heightReal :: real
  samplingType :: TextureSamplingType

definition PixelShaderTexture_init ::
  "8 word list \<Rightarrow> int \<Rightarrow> int \<Rightarrow> TextureSamplingType \<Rightarrow> PixelShaderTexture" where
  "PixelShaderTexture_init texels' width' height' samplingType' =
     \<lparr> texels = texels', width = width', height = height',
       widthMinusOne = width' - 1, heightMinusOne = height' - 1,
       widthReal = real_of_int width', heightReal = real_of_int height',
       samplingType = samplingType' \<rparr>"

record PixelShaderPalette =
  paletteColors :: "32 word list"
  paletteCount :: int

record PixelShaderLighting =
  lightTableTexels :: "8 word list"
  lightLevelCount :: int
  lightLevelCountReal :: real
  texelsPerLightLevel :: int
  lightLevel :: int

record PixelShaderHorizonMirror =
  horizonScreenSpacePoint :: Double2
  reflectedPixelIndex :: int
  isReflectedPixelInFrameBuffer :: bool
  fallbackSkyColor :: "8 word"

text \<open>
  \<open>colors\<close> is the palette-index buffer and \<open>depth\<close> the depth buffer. C++ arrays are
  lists; an \<open>int\<close> index \<open>i\<close> reads \<open>xs ! nat i\<close> and writes \<open>xs[nat i := v]\<close>.
\<close>

record PixelShaderFrameBuffer =
  colors :: "8 word list"
  depth :: "real list"
  palette :: PixelShaderPalette
  xPercent :: real
  yPercent :: real
  pixelIndex :: int
  enableDepthWrite :: bool

text \<open>
  The tail shared by the shaders: store the shaded texel at \<open>pixelIndex\<close> and, if
  \<open>enableDepthWrite\<close>, the depth.
\<close>

definition writeColorAndDepth ::
  "PixelShaderPerspectiveCorrection \<Rightarrow> 8 word \<Rightarrow> PixelShaderFrameBuffer \<Rightarrow> PixelShaderFrameBuffer" where
  "writeColorAndDepth perspective shadedTexel frameBuffer =
     (let frameBuffer' =
            frameBuffer\<lparr> colors := (colors frameBuffer)[nat (pixelIndex frameBuffer) := shadedTexel] \<rparr>
      in if enableDepthWrite frameBuffer'
         then frameBuffer'\<lparr> depth := (depth frameBuffer')[nat (pixelIndex frameBuffer') :=
                                         ndcZDepth perspective] \<rparr>
         else frameBuffer')"

text \<open>
  The nearest-neighbour lookup the shaders repeat: both texture coordinates scaled, cast
  and clamped, then \<open>texels[texelX + (texelY * width)]\<close>.
\<close>

definition sampleTexel :: "PixelShaderTexture \<Rightarrow> real \<Rightarrow> real \<Rightarrow> 8 word" where
  "sampleTexel texture u v =
     (let texelX = std_clamp (static_cast_int (u * widthReal texture)) 0 (widthMinusOne texture);
          texelY = std_clamp (static_cast_int (v * heightReal texture)) 0 (heightMinusOne texture);
          texelIndex = texelX + (texelY * width texture)
      in texels texture ! nat texelIndex)"

text \<open>The screen-space sampling of chasm textures: \<open>xPercent\<close> and twice \<open>yPercent\<close>, wrapped.\<close>

definition sampleTexelScreenSpaceRepeatY :: "PixelShaderTexture \<Rightarrow> PixelShaderFrameBuffer \<Rightarrow> 8 word" where
  "sampleTexelScreenSpaceRepeatY texture frameBuffer =
     (let texelX = std_clamp (static_cast_int (xPercent frameBuffer * widthReal texture)) 0
                     (widthMinusOne texture);
          v = yPercent frameBuffer * 2;
          actualV = (if v \<ge> 1 then v - 1 else v);
          texelY = std_clamp (static_cast_int (actualV * heightReal texture)) 0
                     (heightMinusOne texture);
          texelIndex = texelX + (texelY * width texture)
      in texels texture ! nat texelIndex)"

definition lightTableLookup :: "PixelShaderLighting \<Rightarrow> 8 word \<Rightarrow> 8 word" where
  "lightTableLookup lighting texel =
     lightTableTexels lighting
       ! nat (shadedTexelIndex texel (lightLevel lighting) (texelsPerLightLevel lighting))"

definition PixelShader_Opaque ::
  "PixelShaderPerspectiveCorrection \<Rightarrow> PixelShaderTexture \<Rightarrow> PixelShaderLighting \<Rightarrow>
   PixelShaderFrameBuffer \<Rightarrow> PixelShaderFrameBuffer" where
  "PixelShader_Opaque perspective texture lighting frameBuffer =
     (let texel = (case samplingType texture of
                     Default \<Rightarrow> sampleTexel texture (x2 (texelPercent perspective))
                                  (y2 (texelPercent perspective))
                   | ScreenSpaceRepeatY \<Rightarrow> sampleTexelScreenSpaceRepeatY texture frameBuffer);
          shadedTexel = lightTableLookup lighting texel
      in writeColorAndDepth perspective shadedTexel frameBuffer)"

definition PixelShader_OpaqueWithAlphaTestLayer ::
  "ArenaRenderUtils \<Rightarrow> PixelShaderPerspectiveCorrection \<Rightarrow> PixelShaderTexture \<Rightarrow>
   PixelShaderTexture \<Rightarrow> PixelShaderLighting \<Rightarrow> PixelShaderFrameBuffer \<Rightarrow> PixelShaderFrameBuffer" where
  "PixelShader_OpaqueWithAlphaTestLayer utils perspective opaqueTexture alphaTestTexture lighting
       frameBuffer =
     (let layerTexel = sampleTexel alphaTestTexture (x2 (texelPercent perspective))
                         (y2 (texelPercent perspective));
          isTransparent = (layerTexel = PALETTE_INDEX_TRANSPARENT utils);
          texel = (if isTransparent then sampleTexelScreenSpaceRepeatY opaqueTexture frameBuffer
                   else layerTexel);
          shadedTexel = lightTableLookup lighting texel
      in writeColorAndDepth perspective shadedTexel frameBuffer)"

definition PixelShader_AlphaTested ::
  "ArenaRenderUtils \<Rightarrow> PixelShaderPerspectiveCorrection \<Rightarrow> PixelShaderTexture \<Rightarrow>
   PixelShaderLighting \<Rightarrow> PixelShaderFrameBuffer \<Rightarrow> PixelShaderFrameBuffer" where
  "PixelShader_AlphaTested utils perspective texture lighting frameBuffer =
     (let texel = sampleTexel texture (x2 (texelPercent perspective)) (y2 (texelPercent perspective));
          isTransparent = (texel = PALETTE_INDEX_TRANSPARENT utils)
      in if isTransparent then frameBuffer
         else writeColorAndDepth perspective (lightTableLookup lighting texel) frameBuffer)"

definition PixelShader_AlphaTestedWithVariableTexCoordUMin ::
  "ArenaRenderUtils \<Rightarrow> PixelShaderPerspectiveCorrection \<Rightarrow> PixelShaderTexture \<Rightarrow> real \<Rightarrow>
   PixelShaderLighting \<Rightarrow> PixelShaderFrameBuffer \<Rightarrow> PixelShaderFrameBuffer" where
  "PixelShader_AlphaTestedWithVariableTexCoordUMin utils perspective texture uMin lighting frameBuffer =
     (let u = std_clamp (uMin + ((1 - uMin) * x2 (texelPercent perspective))) uMin 1;
          texelX = std_clamp (static_cast_int (u * widthReal texture)) 0 (widthMinusOne texture);
          texelY = std_clamp
                     (static_cast_int (y2 (texelPercent perspective) * real_of_int (height texture)))
                     0 (heightMinusOne texture);
          texelIndex = texelX + (texelY * width texture);
          texel = texels texture ! nat texelIndex;
          isTransparent = (texel = PALETTE_INDEX_TRANSPARENT utils)
      in if isTransparent then frameBuffer
         else writeColorAndDepth perspective (lightTableLookup lighting texel) frameBuffer)"

definition PixelShader_AlphaTestedWithVariableTexCoordVMin ::
  "ArenaRenderUtils \<Rightarrow> PixelShaderPerspectiveCorrection \<Rightarrow> PixelShaderTexture \<Rightarrow> real \<Rightarrow>
   PixelShaderLighting \<Rightarrow> PixelShaderFrameBuffer \<Rightarrow> PixelShaderFrameBuffer" where
  "PixelShader_AlphaTestedWithVariableTexCoordVMin utils perspective texture vMin lighting frameBuffer =
     (let v = std_clamp (vMin + ((1 - vMin) * y2 (texelPercent perspective))) vMin 1;
          texel = sampleTexel texture (x2 (texelPercent perspective)) v;
          isTransparent = (texel = PALETTE_INDEX_TRANSPARENT utils)
      in if isTransparent then frameBuffer
         else writeColorAndDepth perspective (lightTableLookup lighting texel) frameBuffer)"

definition PixelShader_AlphaTestedWithPaletteIndexLookup ::
  "ArenaRenderUtils \<Rightarrow> PixelShaderPerspectiveCorrection \<Rightarrow> PixelShaderTexture \<Rightarrow>
   PixelShaderTexture \<Rightarrow> PixelShaderLighting \<Rightarrow> PixelShaderFrameBuffer \<Rightarrow> PixelShaderFrameBuffer" where
  "PixelShader_AlphaTestedWithPaletteIndexLookup utils perspective texture lookupTexture lighting
       frameBuffer =
     (let texel = sampleTexel texture (x2 (texelPercent perspective)) (y2 (texelPercent perspective));
          isTransparent = (texel = PALETTE_INDEX_TRANSPARENT utils)
      in if isTransparent then frameBuffer
         else
           (let replacementTexel = texels lookupTexture ! unat texel
            in writeColorAndDepth perspective (lightTableLookup lighting replacementTexel)
                 frameBuffer))"

definition PixelShader_AlphaTestedWithLightLevelColor ::
  "ArenaRenderUtils \<Rightarrow> PixelShaderPerspectiveCorrection \<Rightarrow> PixelShaderTexture \<Rightarrow>
   PixelShaderLighting \<Rightarrow> PixelShaderFrameBuffer \<Rightarrow> PixelShaderFrameBuffer" where
  "PixelShader_AlphaTestedWithLightLevelColor utils perspective texture lighting frameBuffer =
     (let texel = sampleTexel texture (x2 (texelPercent perspective)) (y2 (texelPercent perspective));
          isTransparent = (texel = PALETTE_INDEX_TRANSPARENT utils)
      in if isTransparent then frameBuffer
         else
           (let lightTableTexelIndex = uint texel
                  + (lightLevel lighting * texelsPerLightLevel lighting);
                resultTexel = lightTableTexels lighting ! nat lightTableTexelIndex
            in writeColorAndDepth perspective resultTexel frameBuffer))"

definition PixelShader_AlphaTestedWithLightLevelOpacity ::
  "ArenaRenderUtils \<Rightarrow> PixelShaderPerspectiveCorrection \<Rightarrow> PixelShaderTexture \<Rightarrow>
   PixelShaderLighting \<Rightarrow> PixelShaderFrameBuffer \<Rightarrow> PixelShaderFrameBuffer" where
  "PixelShader_AlphaTestedWithLightLevelOpacity utils perspective texture lighting frameBuffer =
     (let texel = sampleTexel texture (x2 (texelPercent perspective)) (y2 (texelPercent perspective));
          isTransparent = (texel = PALETTE_INDEX_TRANSPARENT utils)
      in if isTransparent then frameBuffer
         else
           (let lightTableTexelIndex =
                  (if isLightLevelTexel utils texel then
                     (let lightLevel' = uint texel - uint (PALETTE_INDEX_LIGHT_LEVEL_LOWEST utils);
                          prevFrameBufferPixel = colors frameBuffer ! nat (pixelIndex frameBuffer)
                      in uint prevFrameBufferPixel + (lightLevel' * texelsPerLightLevel lighting))
                   else
                     (let lightTableOffset = lightLevel lighting * texelsPerLightLevel lighting
                      in if texel = PALETTE_INDEX_LIGHT_LEVEL_SRC1 utils
                           then lightTableOffset + uint (PALETTE_INDEX_LIGHT_LEVEL_DST1 utils)
                         else if texel = PALETTE_INDEX_LIGHT_LEVEL_SRC2 utils
                           then lightTableOffset + uint (PALETTE_INDEX_LIGHT_LEVEL_DST2 utils)
                         else lightTableOffset + uint texel));
                resultTexel = lightTableTexels lighting ! nat lightTableTexelIndex
            in writeColorAndDepth perspective resultTexel frameBuffer))"

definition brightnessMaskRGB :: "32 word" where
  "brightnessMaskRGB = (push_bit 16 0xC0) OR (push_bit 8 0xC0) OR 0xC0"

definition PixelShader_AlphaTestedWithPreviousBrightnessLimit ::
  "ArenaRenderUtils \<Rightarrow> PixelShaderPerspectiveCorrection \<Rightarrow> PixelShaderTexture \<Rightarrow>
   PixelShaderFrameBuffer \<Rightarrow> PixelShaderFrameBuffer" where
  "PixelShader_AlphaTestedWithPreviousBrightnessLimit utils perspective texture frameBuffer =
     (let prevFrameBufferPixel = colors frameBuffer ! nat (pixelIndex frameBuffer);
          prevFrameBufferColor = paletteColors (palette frameBuffer) ! unat prevFrameBufferPixel;
          isDarkEnough = (prevFrameBufferColor AND brightnessMaskRGB = 0)
      in if \<not> isDarkEnough then frameBuffer
         else
           (let texel = sampleTexel texture (x2 (texelPercent perspective))
                          (y2 (texelPercent perspective));
                isTransparent = (texel = PALETTE_INDEX_TRANSPARENT utils)
            in if isTransparent then frameBuffer
               else writeColorAndDepth perspective texel frameBuffer))"

definition PixelShader_AlphaTestedWithHorizonMirror ::
  "ArenaRenderUtils \<Rightarrow> PixelShaderPerspectiveCorrection \<Rightarrow> PixelShaderTexture \<Rightarrow>
   PixelShaderHorizonMirror \<Rightarrow> PixelShaderLighting \<Rightarrow> PixelShaderFrameBuffer \<Rightarrow>
   PixelShaderFrameBuffer" where
  "PixelShader_AlphaTestedWithHorizonMirror utils perspective texture horizon lighting frameBuffer =
     (let texel = sampleTexel texture (x2 (texelPercent perspective)) (y2 (texelPercent perspective));
          isTransparent = (texel = PALETTE_INDEX_TRANSPARENT utils)
      in if isTransparent then frameBuffer
         else
           (let isReflective = (texel = PALETTE_INDEX_PUDDLE_EVEN_ROW utils);
                resultTexel =
                  (if isReflective then
                     (if isReflectedPixelInFrameBuffer horizon
                      then colors frameBuffer ! nat (reflectedPixelIndex horizon)
                      else fallbackSkyColor horizon)
                   else lightTableLookup lighting texel)
            in writeColorAndDepth perspective resultTexel frameBuffer))"

datatype PixelShaderType =
    Opaque
  | OpaqueWithAlphaTestLayer
  | AlphaTested
  | AlphaTestedWithVariableTexCoordUMin
  | AlphaTestedWithVariableTexCoordVMin
  | AlphaTestedWithPaletteIndexLookup
  | AlphaTestedWithLightLevelColor
  | AlphaTestedWithLightLevelOpacity
  | AlphaTestedWithPreviousBrightnessLimit
  | AlphaTestedWithHorizonMirror

text \<open>The \<open>switch (pixelShaderType)\<close> of \<open>RasterizeTriangles\<close>.\<close>

definition runPixelShader ::
  "ArenaRenderUtils \<Rightarrow> PixelShaderType \<Rightarrow> real \<Rightarrow> PixelShaderPerspectiveCorrection \<Rightarrow>
   PixelShaderTexture \<Rightarrow> PixelShaderTexture \<Rightarrow> PixelShaderHorizonMirror \<Rightarrow> PixelShaderLighting \<Rightarrow>
   PixelShaderFrameBuffer \<Rightarrow> PixelShaderFrameBuffer" where
  "runPixelShader utils pixelShaderType pixelShaderParam0 shaderPerspective shaderTexture0
       shaderTexture1 shaderHorizonMirror shaderLighting shaderFrameBuffer =
     (case pixelShaderType of
        Opaque \<Rightarrow>
          PixelShader_Opaque shaderPerspective shaderTexture0 shaderLighting shaderFrameBuffer
      | OpaqueWithAlphaTestLayer \<Rightarrow>
          PixelShader_OpaqueWithAlphaTestLayer utils shaderPerspective shaderTexture0 shaderTexture1
            shaderLighting shaderFrameBuffer
      | AlphaTested \<Rightarrow>
          PixelShader_AlphaTested utils shaderPerspective shaderTexture0 shaderLighting
            shaderFrameBuffer
      | AlphaTestedWithVariableTexCoordUMin \<Rightarrow>
          PixelShader_AlphaTestedWithVariableTexCoordUMin utils shaderPerspective shaderTexture0
            pixelShaderParam0 shaderLighting shaderFrameBuffer
      | AlphaTestedWithVariableTexCoordVMin \<Rightarrow>
          PixelShader_AlphaTestedWithVariableTexCoordVMin utils shaderPerspective shaderTexture0
            pixelShaderParam0 shaderLighting shaderFrameBuffer
      | AlphaTestedWithPaletteIndexLookup \<Rightarrow>
          PixelShader_AlphaTestedWithPaletteIndexLookup utils shaderPerspective shaderTexture0
            shaderTexture1 shaderLighting shaderFrameBuffer
      | AlphaTestedWithLightLevelColor \<Rightarrow>
          PixelShader_AlphaTestedWithLightLevelColor utils shaderPerspective shaderTexture0
            shaderLighting shaderFrameBuffer
      | AlphaTestedWithLightLevelOpacity \<Rightarrow>
          PixelShader_AlphaTestedWithLightLevelOpacity utils shaderPerspective shaderTexture0
            shaderLighting shaderFrameBuffer
      | AlphaTestedWithPreviousBrightnessLimit \<Rightarrow>
          PixelShader_AlphaTestedWithPreviousBrightnessLimit utils shaderPerspective shaderTexture0
            shaderFrameBuffer
      | AlphaTestedWithHorizonMirror \<Rightarrow>
          PixelShader_AlphaTestedWithHorizonMirror utils shaderPerspective shaderTexture0
            shaderHorizonMirror shaderLighting shaderFrameBuffer)"

text \<open>
  What \<open>RasterizeTriangles\<close> changes while shading one pixel that passed the depth test: the
  shader's frame buffer (palette indices and depth), the 32-bit colour buffer and the
  profiling counter \<open>g_totalColorWrites\<close>.
\<close>

record RasterState =
  shaderFrameBuffer :: PixelShaderFrameBuffer
  colorBuffer :: "32 word list"
  g_totalColorWrites :: int

text \<open>
  The end of the pixel body of \<open>RasterizeTriangles\<close>: the shader switch, then
  \<open>colorBufferPtr[pixelIndex] = palette.colors[colors[pixelIndex]]\<close> and
  \<open>g_totalColorWrites++\<close>, both outside the switch.
\<close>

definition shadePixel ::
  "ArenaRenderUtils \<Rightarrow> PixelShaderType \<Rightarrow> real \<Rightarrow> PixelShaderPerspectiveCorrection \<Rightarrow>
   PixelShaderTexture \<Rightarrow> PixelShaderTexture \<Rightarrow> PixelShaderHorizonMirror \<Rightarrow> PixelShaderLighting \<Rightarrow>
   RasterState \<Rightarrow> RasterState" where
  "shadePixel utils pixelShaderType pixelShaderParam0 shaderPerspective shaderTexture0
       shaderTexture1 shaderHorizonMirror shaderLighting st =
     (let frameBuffer' = runPixelShader utils pixelShaderType pixelShaderParam0 shaderPerspective
                           shaderTexture0 shaderTexture1 shaderHorizonMirror shaderLighting
                           (shaderFrameBuffer st);
          writtenPaletteIndex = colors frameBuffer' ! nat (pixelIndex frameBuffer')
      in st\<lparr> shaderFrameBuffer := frameBuffer',
              colorBuffer := (colorBuffer st)[nat (pixelIndex frameBuffer') :=
                               paletteColors (palette frameBuffer') ! unat writtenPaletteIndex],
              g_totalColorWrites := g_totalColorWrites st + 1 \<rparr>)"

text \<open>The \<open>AlphaTested*\<close> variants of the pixel shader.\<close>

definition isAlphaTestedShader :: "PixelShaderType \<Rightarrow> bool" where
  "isAlphaTestedShader t = (t \<noteq> Opaque \<and> t \<noteq> OpaqueWithAlphaTestLayer)"

text \<open>
  The texel an \<open>AlphaTested*\<close> shader compares with the transparent sentinel: each variant's
  own lookup in \<open>shaderTexture0\<close>.
\<close>

definition alphaTestTexel ::
  "PixelShaderType \<Rightarrow> real \<Rightarrow> PixelShaderPerspectiveCorrection \<Rightarrow> PixelShaderTexture \<Rightarrow> 8 word" where
  "alphaTestTexel pixelShaderType pixelShaderParam0 perspective texture =
     (case pixelShaderType of
        AlphaTestedWithVariableTexCoordUMin \<Rightarrow>
          (let uMin = pixelShaderParam0;
               u = std_clamp (uMin + ((1 - uMin) * x2 (texelPercent perspective))) uMin 1;
               texelX = std_clamp (static_cast_int (u * widthReal texture)) 0 (widthMinusOne texture);
               texelY = std_clamp
                     (static_cast_int (y2 (texelPercent perspective) * real_of_int (height texture)))
                     0 (heightMinusOne texture)
           in texels texture ! nat (texelX + (texelY * width texture)))
      | AlphaTestedWithVariableTexCoordVMin \<Rightarrow>
          (let vMin = pixelShaderParam0;
               v = std_clamp (vMin + ((1 - vMin) * y2 (texelPercent perspective))) vMin 1
           in sampleTexel texture (x2 (texelPercent perspective)) v)
      | _ \<Rightarrow> sampleTexel texture (x2 (texelPercent perspective)) (y2 (texelPercent perspective)))"

subsection \<open>A pixel of a freshly cleared frame\<close>

text \<open>
  Concrete values for evaluating the shaders: a 1 by 1 texture whose texel is the
  transparent sentinel, and the frame buffers of one pixel as \<open>ClearFrameBuffers\<close> leaves
  them (palette index 0, colour 0), with a palette whose entry 0 is opaque black.
\<close>

definition exampleUtils :: ArenaRenderUtils where
  "exampleUtils =
     \<lparr> PALETTE_INDEX_TRANSPARENT = 0, PALETTE_INDEX_LIGHT_LEVEL_LOWEST = 1,
       PALETTE_INDEX_LIGHT_LEVEL_SRC1 = 2, PALETTE_INDEX_LIGHT_LEVEL_SRC2 = 3,
       PALETTE_INDEX_LIGHT_LEVEL_DST1 = 4, PALETTE_INDEX_LIGHT_LEVEL_DST2 = 5,
       PALETTE_INDEX_PUDDLE_EVEN_ROW = 6, isLightLevelTexel = (\<lambda>texel. False) \<rparr>"

definition exampleTexture :: PixelShaderTexture where
  "exampleTexture = PixelShaderTexture_init [0] 1 1 Default"

definition exampleLighting :: PixelShaderLighting where
  "exampleLighting =
     \<lparr> lightTableTexels = [0, 1], lightLevelCount = 1, lightLevelCountReal = 1,
       texelsPerLightLevel = 2, lightLevel = 0 \<rparr>"

definition exampleHorizonMirror :: PixelShaderHorizonMirror where
  "exampleHorizonMirror =
     \<lparr> horizonScreenSpacePoint = Double2 0 0, reflectedPixelIndex = 0,
       isReflectedPixelInFrameBuffer = False, fallbackSkyColor = 0 \<rparr>"

definition examplePerspective :: PixelShaderPerspectiveCorrection where
  "examplePerspective = \<lparr> ndcZDepth = 1 / 2, texelPercent = Double2 (1 / 2) (1 / 2) \<rparr>"

definition exampleRasterState :: RasterState where
  "exampleRasterState =
     \<lparr> shaderFrameBuffer =
         \<lparr> colors = [0], depth = [1],
           palette = \<lparr> paletteColors = [0xFF000000, 0xFFFFFFFF], paletteCount = 2 \<rparr>,
           xPercent = 1 / 2, yPercent = 1 / 2, pixelIndex = 0, enableDepthWrite = True \<rparr>,
       colorBuffer = [0], g_totalColorWrites = 0 \<rparr>"

section \<open>Resource pools\<close>

text \<open>
  Modelled from the spec: the slot pool behind \<open>vertexBuffers\<close>, \<open>attributeBuffers\<close>,
  \<open>indexBuffers\<close>, \<open>uniformBuffers\<close>, \<open>objectTextures\<close> and \<open>lights\<close> (the pool class is
  not among the sources). The spec describes slot-allocated storage referenced by integer
  handle, whose allocation fails when the pool is exhausted and whose freed slots are
  reused. A pool is the list of its slots, \<open>None\<close> for a free one; the handle is the index.
\<close>

type_synonym 'a RecyclablePool = "'a option list"

definition pool_isExhausted :: "'a RecyclablePool \<Rightarrow> bool" where
  "pool_isExhausted pool = list_all (\<lambda>slot. slot \<noteq> None) pool"

definition pool_tryAlloc :: "'a \<Rightarrow> 'a RecyclablePool \<Rightarrow> (int \<times> 'a RecyclablePool) option" where
  "pool_tryAlloc element pool =
     (case find (\<lambda>i. pool ! i = None) [0..<length pool] of
        None \<Rightarrow> None
      | Some i \<Rightarrow> Some (int i, pool[i := Some element]))"

definition pool_tryGet :: "'a RecyclablePool \<Rightarrow> int \<Rightarrow> 'a option" where
  "pool_tryGet pool handle =
     (if 0 \<le> handle \<and> nat handle < length pool then pool ! nat handle else None)"

definition pool_set :: "'a RecyclablePool \<Rightarrow> int \<Rightarrow> 'a \<Rightarrow> 'a RecyclablePool" where
  "pool_set pool handle element = pool[nat handle := Some element]"

definition pool_free :: "'a RecyclablePool \<Rightarrow> int \<Rightarrow> 'a RecyclablePool" where
  "pool_free pool handle =
     (if 0 \<le> handle \<and> nat handle < length pool then pool[nat handle := None] else pool)"

definition pool_getUsedCount :: "'a RecyclablePool \<Rightarrow> nat" where
  "pool_getUsedCount pool = length (filter (\<lambda>slot. slot \<noteq> None) pool)"

text \<open>
  A log line of \<open>DebugLogError\<close> or \<open>DebugLogWarning\<close>: the fixed text and the numbers the
  source formats into it.
\<close>

datatype LogMessage = LogError string "int list" | LogWarning string "int list"

definition isLogError :: "LogMessage \<Rightarrow> bool" where
  "isLogError m = (case m of LogError _ _ \<Rightarrow> True | LogWarning _ _ \<Rightarrow> False)"

record VertexBuffer =
  vertices :: "real list"

record AttributeBuffer =
  attributes :: "real list"

record IndexBuffer =
  indices :: "32 word list"

text \<open>\<open>Buffer<T>::init(count)\<close> allocates \<open>count\<close> elements; the model fills them with zero.\<close>

definition VertexBuffer_init :: "int \<Rightarrow> int \<Rightarrow> VertexBuffer" where
  "VertexBuffer_init vertexCount componentsPerVertex =
     (let valueCount = vertexCount * componentsPerVertex
      in \<lparr> vertices = replicate (nat valueCount) 0 \<rparr>)"

definition AttributeBuffer_init :: "int \<Rightarrow> int \<Rightarrow> AttributeBuffer" where
  "AttributeBuffer_init vertexCount componentsPerVertex =
     (let valueCount = vertexCount * componentsPerVertex
      in \<lparr> attributes = replicate (nat valueCount) 0 \<rparr>)"

definition IndexBuffer_init :: "int \<Rightarrow> IndexBuffer" where
  "IndexBuffer_init indexCount = \<lparr> indices = replicate (nat indexCount) 0 \<rparr>"

record ObjectTexture =
  textureBytes :: "8 word list"
  textureWidth :: int
  textureHeight :: int
  textureTexelCount :: int
  textureBytesPerTexel :: int

definition ObjectTexture_default :: ObjectTexture where
  "ObjectTexture_default =
     \<lparr> textureBytes = [], textureWidth = 0, textureHeight = 0, textureTexelCount = 0,
       textureBytesPerTexel = 0 \<rparr>"

text \<open>
  \<open>ObjectTexture::init\<close>: three assertions, the zero-filled byte buffer, and the switch on
  \<open>bytesPerTexel\<close> whose default case is \<open>DebugNotImplementedMsg\<close>. The typed views
  \<open>texels8Bit\<close> and \<open>texels32Bit\<close> alias \<open>textureBytes\<close> and are not stored.
\<close>

definition ObjectTexture_init :: "int \<Rightarrow> int \<Rightarrow> int \<Rightarrow> Halt + ObjectTexture" where
  "ObjectTexture_init width' height' bytesPerTexel' =
     (if \<not> width' > 0 then Inl DebugAssertFailed
      else if \<not> height' > 0 then Inl DebugAssertFailed
      else if \<not> bytesPerTexel' > 0 then Inl DebugAssertFailed
      else
        let texelCount = width' * height'
        in if bytesPerTexel' = 1 \<or> bytesPerTexel' = 4
           then Inr \<lparr> textureBytes = replicate (nat (texelCount * bytesPerTexel')) 0,
                      textureWidth = width', textureHeight = height',
                      textureTexelCount = texelCount, textureBytesPerTexel = bytesPerTexel' \<rparr>
           else Inl DebugNotImplemented)"

text \<open>
  Modelled from the spec: \<open>UniformBuffer\<close> (declared in SoftwareRenderer.h, which is not
  among the sources), a typed, element-indexed byte blob of
  \<open>elementCount * sizeOfElement\<close> valid bytes.
\<close>

record UniformBuffer =
  uniformBytes :: "8 word list"
  elementCount :: int
  sizeOfElement :: nat
  alignmentOfElement :: nat

definition UniformBuffer_default :: UniformBuffer where
  "UniformBuffer_default =
     \<lparr> uniformBytes = [], elementCount = 0, sizeOfElement = 0, alignmentOfElement = 0 \<rparr>"

definition UniformBuffer_init :: "int \<Rightarrow> nat \<Rightarrow> nat \<Rightarrow> UniformBuffer" where
  "UniformBuffer_init elementCount' sizeOfElement' alignmentOfElement' =
     \<lparr> uniformBytes = replicate (nat (elementCount' * int sizeOfElement')) 0,
       elementCount = elementCount', sizeOfElement = sizeOfElement',
       alignmentOfElement = alignmentOfElement' \<rparr>"

definition getValidByteCount :: "UniformBuffer \<Rightarrow> int" where
  "getValidByteCount buffer = elementCount buffer * int (sizeOfElement buffer)"

definition Light_default :: Light where
  "Light_default = \<lparr> worldPoint = Double3 0 0 0, startRadius = 0, endRadius = 0 \<rparr>"

record SoftwareRenderer =
  vertexBuffers :: "VertexBuffer RecyclablePool"
  attributeBuffers :: "AttributeBuffer RecyclablePool"
  indexBuffers :: "IndexBuffer RecyclablePool"
  uniformBuffers :: "UniformBuffer RecyclablePool"
  objectTextures :: "ObjectTexture RecyclablePool"
  lights :: "Light RecyclablePool"
  debugLog :: "LogMessage list"

definition DebugLogError :: "string \<Rightarrow> int list \<Rightarrow> SoftwareRenderer \<Rightarrow> SoftwareRenderer" where
  "DebugLogError text numbers r = r\<lparr> debugLog := debugLog r @ [LogError text numbers] \<rparr>"

text \<open>
  The \<open>tryCreate*\<close> functions. The result \<open>Inr (None, r')\<close> is the return value \<open>false\<close>,
  \<open>Inr (Some id, r')\<close> is \<open>true\<close> with \<open>*outID = id\<close>, and \<open>Inl h\<close> is a halted call.
\<close>

definition tryCreateVertexBuffer ::
  "int \<Rightarrow> int \<Rightarrow> SoftwareRenderer \<Rightarrow> Halt + (int option \<times> SoftwareRenderer)" where
  "tryCreateVertexBuffer vertexCount componentsPerVertex r =
     (if \<not> vertexCount > 0 then Inl DebugAssertFailed
      else if \<not> componentsPerVertex \<ge> 2 then Inl DebugAssertFailed
      else case pool_tryAlloc \<lparr> vertices = [] \<rparr> (vertexBuffers r) of
        None \<Rightarrow> Inr (None, DebugLogError ''Couldn't allocate vertex buffer ID.'' [] r)
      | Some (outID, pool) \<Rightarrow>
          Inr (Some outID,
               r\<lparr> vertexBuffers :=
                    pool_set pool outID (VertexBuffer_init vertexCount componentsPerVertex) \<rparr>))"

definition tryCreateAttributeBuffer ::
  "int \<Rightarrow> int \<Rightarrow> SoftwareRenderer \<Rightarrow> Halt + (int option \<times> SoftwareRenderer)" where
  "tryCreateAttributeBuffer vertexCount componentsPerVertex r =
     (if \<not> vertexCount > 0 then Inl DebugAssertFailed
      else if \<not> componentsPerVertex \<ge> 2 then Inl DebugAssertFailed
      else case pool_tryAlloc \<lparr> attributes = [] \<rparr> (attributeBuffers r) of
        None \<Rightarrow> Inr (None, DebugLogError ''Couldn't allocate attribute buffer ID.'' [] r)
      | Some (outID, pool) \<Rightarrow>
          Inr (Some outID,
               r\<lparr> attributeBuffers :=
                    pool_set pool outID (AttributeBuffer_init vertexCount componentsPerVertex) \<rparr>))"

definition tryCreateIndexBuffer ::
  "int \<Rightarrow> SoftwareRenderer \<Rightarrow> Halt + (int option \<times> SoftwareRenderer)" where
  "tryCreateIndexBuffer indexCount r =
     (if \<not> indexCount > 0 then Inl DebugAssertFailed
      else if \<not> (indexCount mod 3) = 0 then Inl DebugAssertFailed
      else case pool_tryAlloc \<lparr> indices = [] \<rparr> (indexBuffers r) of
        None \<Rightarrow> Inr (None, DebugLogError ''Couldn't allocate index buffer ID.'' [] r)
      | Some (outID, pool) \<Rightarrow>
          Inr (Some outID,
               r\<lparr> indexBuffers := pool_set pool outID (IndexBuffer_init indexCount) \<rparr>))"

definition tryCreateObjectTexture ::
  "int \<Rightarrow> int \<Rightarrow> int \<Rightarrow> SoftwareRenderer \<Rightarrow> Halt + (int option \<times> SoftwareRenderer)" where
  "tryCreateObjectTexture width' height' bytesPerTexel' r =
     (case pool_tryAlloc ObjectTexture_default (objectTextures r) of
        None \<Rightarrow> Inr (None, DebugLogError ''Couldn't allocate object texture ID.'' [] r)
      | Some (outID, pool) \<Rightarrow>
          (case ObjectTexture_init width' height' bytesPerTexel' of
             Inl h \<Rightarrow> Inl h
           | Inr texture \<Rightarrow>
               Inr (Some outID, r\<lparr> objectTextures := pool_set pool outID texture \<rparr>)))"

definition tryCreateUniformBuffer ::
  "int \<Rightarrow> nat \<Rightarrow> nat \<Rightarrow> SoftwareRenderer \<Rightarrow> Halt + (int option \<times> SoftwareRenderer)" where
  "tryCreateUniformBuffer elementCount' sizeOfElement' alignmentOfElement' r =
     (if \<not> elementCount' \<ge> 0 then Inl DebugAssertFailed
      else if \<not> sizeOfElement' > 0 then Inl DebugAssertFailed
      else if \<not> alignmentOfElement' > 0 then Inl DebugAssertFailed
      else case pool_tryAlloc UniformBuffer_default (uniformBuffers r) of
        None \<Rightarrow> Inr (None, DebugLogError ''Couldn't allocate uniform buffer ID.'' [] r)
      | Some (outID, pool) \<Rightarrow>
          Inr (Some outID,
               r\<lparr> uniformBuffers :=
                    pool_set pool outID
                      (UniformBuffer_init elementCount' sizeOfElement' alignmentOfElement') \<rparr>))"

definition tryCreateLight :: "SoftwareRenderer \<Rightarrow> Halt + (int option \<times> SoftwareRenderer)" where
  "tryCreateLight r =
     (case pool_tryAlloc Light_default (lights r) of
        None \<Rightarrow> Inr (None, DebugLogError ''Couldn't allocate render light ID.'' [] r)
      | Some (outID, pool) \<Rightarrow> Inr (Some outID, r\<lparr> lights := pool \<rparr>))"

text \<open>
  \<open>std::copy(srcBegin, srcEnd, dst)\<close>: the source elements, in order, over the front of the
  destination.
\<close>

definition std_copy :: "'a list \<Rightarrow> 'a list \<Rightarrow> 'a list" where
  "std_copy src dst = src @ drop (length src) dst"

definition populateVertexBuffer ::
  "int \<Rightarrow> real list \<Rightarrow> SoftwareRenderer \<Rightarrow> Halt + SoftwareRenderer" where
  "populateVertexBuffer id' vertices' r =
     (case pool_tryGet (vertexBuffers r) id' of
        None \<Rightarrow> Inl InvalidHandle
      | Some buffer \<Rightarrow>
          let srcCount = int (length vertices');
              dstCount = int (length (vertices buffer))
          in if srcCount \<noteq> dstCount
             then Inr (DebugLogError ''Mismatched vertex buffer sizes for ID''
                         [id', srcCount, dstCount] r)
             else Inr (r\<lparr> vertexBuffers := pool_set (vertexBuffers r) id'
                          (buffer\<lparr> vertices := std_copy vertices' (vertices buffer) \<rparr>) \<rparr>))"

definition populateAttributeBuffer ::
  "int \<Rightarrow> real list \<Rightarrow> SoftwareRenderer \<Rightarrow> Halt + SoftwareRenderer" where
  "populateAttributeBuffer id' attributes' r =
     (case pool_tryGet (attributeBuffers r) id' of
        None \<Rightarrow> Inl InvalidHandle
      | Some buffer \<Rightarrow>
          let srcCount = int (length attributes');
              dstCount = int (length (attributes buffer))
          in if srcCount \<noteq> dstCount
             then Inr (DebugLogError ''Mismatched attribute buffer sizes for ID''
                         [id', srcCount, dstCount] r)
             else Inr (r\<lparr> attributeBuffers := pool_set (attributeBuffers r) id'
                          (buffer\<lparr> attributes := std_copy attributes' (attributes buffer) \<rparr>) \<rparr>))"

definition populateIndexBuffer ::
  "int \<Rightarrow> 32 word list \<Rightarrow> SoftwareRenderer \<Rightarrow> Halt + SoftwareRenderer" where
  "populateIndexBuffer id' indices' r =
     (case pool_tryGet (indexBuffers r) id' of
        None \<Rightarrow> Inl InvalidHandle
      | Some buffer \<Rightarrow>
          let srcCount = int (length indices');
              dstCount = int (length (indices buffer))
          in if srcCount \<noteq> dstCount
             then Inr (DebugLogError ''Mismatched index buffer sizes for ID''
                         [id', srcCount, dstCount] r)
             else Inr (r\<lparr> indexBuffers := pool_set (indexBuffers r) id'
                          (buffer\<lparr> indices := std_copy indices' (indices buffer) \<rparr>) \<rparr>))"

definition populateUniformBuffer ::
  "int \<Rightarrow> 8 word list \<Rightarrow> SoftwareRenderer \<Rightarrow> Halt + SoftwareRenderer" where
  "populateUniformBuffer id' data r =
     (case pool_tryGet (uniformBuffers r) id' of
        None \<Rightarrow> Inl InvalidHandle
      | Some buffer \<Rightarrow>
          let srcCount = int (length data);
              dstCount = getValidByteCount buffer
          in if srcCount \<noteq> dstCount
             then Inr (DebugLogError ''Mismatched uniform buffer sizes for ID''
                         [id', srcCount, dstCount] r)
             else Inr (r\<lparr> uniformBuffers := pool_set (uniformBuffers r) id'
                          (buffer\<lparr> uniformBytes := std_copy data (uniformBytes buffer) \<rparr>) \<rparr>))"

text \<open>
  \<open>samePools\<close> says that no slot of any pool differs between two renderer states. The two
  renderers below have one slot per pool, all free and all taken respectively.
\<close>

definition samePools :: "SoftwareRenderer \<Rightarrow> SoftwareRenderer \<Rightarrow> bool" where
  "samePools r r' =
     (vertexBuffers r' = vertexBuffers r \<and> attributeBuffers r' = attributeBuffers r \<and>
      indexBuffers r' = indexBuffers r \<and> uniformBuffers r' = uniformBuffers r \<and>
      objectTextures r' = objectTextures r \<and> lights r' = lights r)"

definition emptyRenderer :: SoftwareRenderer where
  "emptyRenderer =
     \<lparr> vertexBuffers = [None], attributeBuffers = [None], indexBuffers = [None],
       uniformBuffers = [None], objectTextures = [None], lights = [None], debugLog = [] \<rparr>"

definition fullRenderer :: SoftwareRenderer where
  "fullRenderer =
     \<lparr> vertexBuffers = [Some \<lparr> vertices = [1, 2, 3] \<rparr>],
       attributeBuffers = [Some \<lparr> attributes = [1, 2] \<rparr>],
       indexBuffers = [Some \<lparr> indices = [0, 1, 2] \<rparr>],
       uniformBuffers = [Some (UniformBuffer_init 1 2 1)],
       objectTextures = [Some ObjectTexture_default],
       lights = [Some Light_default], debugLog = [] \<rparr>"

section \<open>Properties of the clip list\<close>

subsection \<open>The loops as list functions\<close>

lemma writeClipResults_ok:
  "length ts + length rs \<le> MAX_CLIPPED_TRIANGLE_TRIANGLES \<Longrightarrow> writeClipResults ts rs = Inr (ts @ rs)"
  by (induction rs arbitrary: ts) (simp_all add: Let_def)

lemma clipTrianglesToClip_ok:
  "f + n \<le> length ts \<Longrightarrow>
   length ts + length (clipLive p (take n (drop f ts))) \<le> MAX_CLIPPED_TRIANGLE_TRIANGLES \<Longrightarrow>
   clipTrianglesToClip n p (ts, f) = Inr (ts @ clipLive p (take n (drop f ts)), f + n)"
proof (induction n arbitrary: ts f)
  case 0
  then show ?case by (simp add: clipLive_def)
next
  case (Suc n)
  from Suc.prems have f: "f < length ts" by simp
  have split: "take (Suc n) (drop f ts) = ts ! f # take n (drop (Suc f) ts)"
    using f by (simp add: take_Suc_conv_app_nth Cons_nth_drop_Suc[symmetric] drop_Suc tl_drop
        take_Suc hd_drop_conv_nth)
  let ?rs = "clipTriangle p (ts ! f)"
  have live: "clipLive p (take (Suc n) (drop f ts)) = ?rs @ clipLive p (take n (drop (Suc f) ts))"
    by (simp add: split clipLive_def)
  have len: "length ts + length ?rs \<le> MAX_CLIPPED_TRIANGLE_TRIANGLES"
    using Suc.prems(2) by (simp add: live)
  have fmax: "f < MAX_CLIPPED_TRIANGLE_TRIANGLES"
    using f len by simp
  have w: "writeClipResults ts ?rs = Inr (ts @ ?rs)"
    by (rule writeClipResults_ok[OF len])
  have tk: "take n (drop (Suc f) (ts @ ?rs)) = take n (drop (Suc f) ts)"
    using Suc.prems(1) by simp
  have ih: "clipTrianglesToClip n p (ts @ ?rs, Suc f) =
            Inr ((ts @ ?rs) @ clipLive p (take n (drop (Suc f) (ts @ ?rs))), Suc f + n)"
  proof (rule Suc.IH)
    show "Suc f + n \<le> length (ts @ ?rs)"
      using Suc.prems(1) by simp
    show "length (ts @ ?rs) + length (clipLive p (take n (drop (Suc f) (ts @ ?rs))))
            \<le> MAX_CLIPPED_TRIANGLE_TRIANGLES"
      unfolding tk using Suc.prems(2) by (simp add: live)
  qed
  have ih': "clipTrianglesToClip n p (ts @ ?rs, Suc f) =
            Inr (ts @ clipLive p (take (Suc n) (drop f ts)), f + Suc n)"
    using ih unfolding tk live by simp
  have unfold: "clipTrianglesToClip (Suc n) p (ts, f) =
      (case writeClipResults ts ?rs of Inl e \<Rightarrow> Inl e
       | Inr ts' \<Rightarrow> clipTrianglesToClip n p (ts', Suc f))"
    using fmax by (simp add: Let_def clipTriangle_def)
  show ?case
    unfolding unfold w using ih' by simp
qed

lemma clipAgainstPlanes_step:
  "f \<le> length ts \<Longrightarrow>
   length ts + length (clipLive p (drop f ts)) \<le> MAX_CLIPPED_TRIANGLE_TRIANGLES \<Longrightarrow>
   clipAgainstPlanes (p # ps) (ts, f) = clipAgainstPlanes ps (ts @ clipLive p (drop f ts), length ts)"
  using clipTrianglesToClip_ok[of f "length ts - f" ts p] by (simp add: Let_def)


lemma clipAgainstPlanes_ok:
  "f \<le> length ts \<Longrightarrow>
   length ts + totalNew ps (drop f ts) \<le> MAX_CLIPPED_TRIANGLE_TRIANGLES \<Longrightarrow>
   \<exists>ts' f'. clipAgainstPlanes ps (ts, f) = Inr (ts', f') \<and> drop f' ts' = liveAfter ps (drop f ts)"
proof (induction ps arbitrary: ts f)
  case Nil
  then show ?case by simp
next
  case (Cons p ps)
  let ?new = "clipLive p (drop f ts)"
  have cap: "length ts + length ?new \<le> MAX_CLIPPED_TRIANGLE_TRIANGLES"
    using Cons.prems(2) by simp
  have step: "clipAgainstPlanes (p # ps) (ts, f) = clipAgainstPlanes ps (ts @ ?new, length ts)"
    by (rule clipAgainstPlanes_step[OF Cons.prems(1) cap])
  have "\<exists>ts' f'. clipAgainstPlanes ps (ts @ ?new, length ts) = Inr (ts', f') \<and>
          drop f' ts' = liveAfter ps (drop (length ts) (ts @ ?new))"
  proof (rule Cons.IH)
    show "length ts \<le> length (ts @ ?new)" by simp
    show "length (ts @ ?new) + totalNew ps (drop (length ts) (ts @ ?new))
            \<le> MAX_CLIPPED_TRIANGLE_TRIANGLES"
      using Cons.prems(2) by simp
  qed
  then show ?case unfolding step by simp
qed

lemma clipShadedTriangle_live:
  assumes "1 + totalNew [0, 1, 2, 3, 4, 5] [t] \<le> MAX_CLIPPED_TRIANGLE_TRIANGLES"
  shows "clipShadedTriangle t = Inr (liveAfter [0, 1, 2, 3, 4, 5] [t])"
proof -
  have "\<exists>ts' f'. clipAgainstPlanes [0, 1, 2, 3, 4, 5] ([t], 0) = Inr (ts', f') \<and>
          drop f' ts' = liveAfter [0, 1, 2, 3, 4, 5] (drop 0 [t])"
  proof (rule clipAgainstPlanes_ok)
    show "0 \<le> length [t]" by simp
    show "length [t] + totalNew [0, 1, 2, 3, 4, 5] (drop 0 [t]) \<le> MAX_CLIPPED_TRIANGLE_TRIANGLES"
      using assms by (simp del: totalNew.simps)
  qed
  then obtain ts' f' where
    r: "clipAgainstPlanes [0, 1, 2, 3, 4, 5] ([t], 0) = Inr (ts', f')" and
    d: "drop f' ts' = liveAfter [0, 1, 2, 3, 4, 5] (drop 0 [t])"
    by blast
  show ?thesis
    unfolding clipShadedTriangle_def r using d by (simp del: liveAfter.simps)
qed

lemma clipTriangle_allInside:
  "0 \<le> p \<Longrightarrow> p \<le> 5 \<Longrightarrow> allVerticesInside p t \<Longrightarrow> clipTriangle p t = [t]"
  by (simp add: clipTriangle_def ProcessClipSpaceTriangle_def allVerticesInside_def
      vertexInside_def Let_def)






















lemma clipTrianglesToClip_unroll:
  "0 < n \<Longrightarrow> clipTrianglesToClip n p (ts, f) =
     (if \<not> f < MAX_CLIPPED_TRIANGLE_TRIANGLES then Inl DebugAssertFailed
      else
        case writeClipResults ts (ProcessClipSpaceTriangle (triV0 (ts ! f)) (triV1 (ts ! f)) (triV2 (ts ! f))
                            (triUV0 (ts ! f)) (triUV1 (ts ! f)) (triUV2 (ts ! f)) p) of
             Inl e \<Rightarrow> Inl e
           | Inr ts' \<Rightarrow> clipTrianglesToClip (n - 1) p (ts', Suc f))"
  by (cases n) (auto simp: Let_def split: sum.splits)


subsection \<open>Triangles inside the frustum\<close>

text \<open>
  Claim C3. A clip-space triangle whose three vertices are classified inside by each of the
  six plane tests leaves the clipping pass as exactly one triangle, with the three
  clip-space vertices and the three texture coordinates of the input.
\<close>

theorem clip_fully_inside_triangle_unchanged:
  assumes "\<forall>p \<in> {0, 1, 2, 3, 4, 5}.
             clipPlaneInside p (clipPlaneDiff p v0) \<and>
             clipPlaneInside p (clipPlaneDiff p v1) \<and>
             clipPlaneInside p (clipPlaneDiff p v2)"
  shows "clipShadedTriangle (ClipTriangle v0 v1 v2 uv0 uv1 uv2) =
           Inr [ClipTriangle v0 v1 v2 uv0 uv1 uv2]"
proof -
  let ?t = "ClipTriangle v0 v1 v2 uv0 uv1 uv2"
  have i: "clipLive p [?t] = [?t]" if "p \<in> {0, 1, 2, 3, 4, 5}" for p
  proof -
    have "allVerticesInside p ?t"
      using assms that unfolding allVerticesInside_def vertexInside_def by auto
    moreover have "0 \<le> p" "p \<le> 5" using that by auto
    ultimately show ?thesis
      by (simp add: clipLive_def clipTriangle_allInside)
  qed
  have l: "liveAfter [0, 1, 2, 3, 4, 5] [?t] = [?t]"
    by (simp add: i)
  have n: "totalNew [0, 1, 2, 3, 4, 5] [?t] = 6"
    by (simp add: i)
  show ?thesis
    using clipShadedTriangle_live[of ?t] by (simp add: l n MAX_CLIPPED_TRIANGLE_TRIANGLES_def
        del: liveAfter.simps totalNew.simps)
qed

theorem clip_fully_inside_triangle_unchanged_witness:
  "clipShadedTriangle (ClipTriangle (Double4 0 0 0 1) (Double4 1 0 0 1) (Double4 0 1 0 1)
        (Double2 0 0) (Double2 1 0) (Double2 0 1)) =
     Inr [ClipTriangle (Double4 0 0 0 1) (Double4 1 0 0 1) (Double4 0 1 0 1)
        (Double2 0 0) (Double2 1 0) (Double2 0 1)]"
proof -
  have h: "\<forall>p \<in> {0, 1, 2, 3, 4, 5}.
      clipPlaneInside p (clipPlaneDiff p (Double4 0 0 0 1)) \<and>
      clipPlaneInside p (clipPlaneDiff p (Double4 1 0 0 1)) \<and>
      clipPlaneInside p (clipPlaneDiff p (Double4 0 1 0 1))"
    by (simp add: clipPlaneInside_def clipPlaneDiff_def)
  show ?thesis
    using clip_fully_inside_triangle_unchanged[OF h, of "Double2 0 0" "Double2 1 0" "Double2 0 1"] .
qed


subsection \<open>Triangles outside one plane\<close>




subsection \<open>Capacity of the clip list\<close>

text \<open>
  Claim C6. The claim is that every index written into the per-triangle clip scratch arrays
  stays below the capacity of 64, so that the two assertions of the clipping loops never
  fail. For the triangle below, shaded by \<open>VertexShader_Basic\<close> with a perspective
  projection, one vertex lies behind the camera and the others beyond the far plane; the
  list reaches the capacity while plane 5 is processed and the clipping pass ends in a
  failed assertion.
\<close>

theorem clip_list_capacity_exceeded:
  "clipShadedTriangle
     (ClipTriangle (VertexShader_Basic (Double3 3 7 2) perspectiveNear1Far3)
                   (VertexShader_Basic (Double3 (- 2) 4 (- 6)) perspectiveNear1Far3)
                   (VertexShader_Basic (Double3 (- 5) (- 7) (- 4)) perspectiveNear1Far3)
        (Double2 0 0) (Double2 1 0) (Double2 0 1)) = Inl DebugAssertFailed"
proof -
  have shaded:
    "VertexShader_Basic (Double3 3 7 2) perspectiveNear1Far3 = Double4 3 7 (- 7) (- 2)"
    "VertexShader_Basic (Double3 (- 2) 4 (- 6)) perspectiveNear1Far3 = Double4 (- 2) 4 9 6"
    "VertexShader_Basic (Double3 (- 5) (- 7) (- 4)) perspectiveNear1Far3 = Double4 (- 5) (- 7) 5 4"
    by (simp_all add: VertexShader_Basic_def perspectiveNear1Far3_def Matrix4d_mul_def
        Double4_dot_def)
  show ?thesis
    unfolding shaded
    by (simp add: clipShadedTriangle_def clipTrianglesToClip_unroll ProcessClipSpaceTriangle_def
        clipPlaneDiff_def clipPlaneInside_def Double4_lerp_def Double2_lerp_def
        MAX_CLIPPED_TRIANGLE_TRIANGLES_def Let_def)
qed

section \<open>Properties of the lighting\<close>

subsection \<open>Light falloff\<close>

lemma lightIntensity_range: "0 \<le> lightIntensity d l \<and> lightIntensity d l \<le> 1"
  by (auto simp: lightIntensity_def std_clamp_def)

lemma lightIntensity_ramp:
  assumes "startRadius l < d" "d < endRadius l"
  shows "lightIntensity d l = 1 - (d - startRadius l) / (endRadius l - startRadius l)"
proof -
  let ?q = "(d - startRadius l) / (endRadius l - startRadius l)"
  have "0 < ?q" "?q < 1"
    using assms by (simp_all add: divide_simps)
  then have "\<not> 1 - ?q < 0" "\<not> 1 < 1 - ?q"
    by linarith+
  then have "std_clamp (1 - ?q) 0 1 = 1 - ?q"
    unfolding std_clamp_def by (simp only: if_False)
  then show ?thesis
    using assms by (simp add: lightIntensity_def)
qed

lemma lightIntensityAt_nonneg: "0 \<le> lightIntensityAt pt l"
  using lightIntensity_range by (simp add: lightIntensityAt_def)

lemma sum_lightIntensityAt_nonneg: "0 \<le> sum_list (map (lightIntensityAt pt) ls)"
  by (induction ls) (simp_all add: lightIntensityAt_nonneg)

lemma accumulateLights_le_one:
  "s \<le> 1 \<Longrightarrow> accumulateLights s ls pt = min 1 (s + sum_list (map (lightIntensityAt pt) ls))"
proof (induction ls arbitrary: s)
  case Nil
  then show ?case by simp
next
  case (Cons l ls)
  let ?s' = "s + lightIntensityAt pt l"
  show ?case
  proof (cases "1 \<le> ?s'")
    case True
    have "1 \<le> ?s' + sum_list (map (lightIntensityAt pt) ls)"
      using True sum_lightIntensityAt_nonneg[of pt ls] by linarith
    then show ?thesis
      using True by (simp add: Let_def lightIntensityAt_def[symmetric] add.assoc)
  next
    case False
    then have "?s' \<le> 1" by simp
    from Cons.IH[OF this] False show ?thesis
      by (simp add: Let_def lightIntensityAt_def[symmetric] add.assoc)
  qed
qed

lemma accumulateLights_clamped:
  assumes "s \<le> 1 \<or> ls \<noteq> []"
  shows "accumulateLights s ls pt = min 1 (s + sum_list (map (lightIntensityAt pt) ls))"
proof (cases "s \<le> 1")
  case True
  then show ?thesis by (rule accumulateLights_le_one)
next
  case False
  with assms obtain l rest where ls: "ls = l # rest" by (cases ls) auto
  have "1 \<le> s + lightIntensityAt pt l"
    using False lightIntensityAt_nonneg[of pt l] by linarith
  moreover have "1 \<le> s + lightIntensityAt pt l + sum_list (map (lightIntensityAt pt) rest)"
    using calculation sum_lightIntensityAt_nonneg[of pt rest] by linarith
  ultimately show ?thesis
    by (simp add: ls Let_def lightIntensityAt_def[symmetric] add.assoc)
qed

text \<open>
  Claim C7, as amended. A light contributes intensity 1 when the distance is at most
  \<open>startRadius\<close>; 0 when the distance is at least \<open>endRadius\<close> and greater than
  \<open>startRadius\<close>; and \<open>1 - (distance - startRadius) / (endRadius - startRadius)\<close> strictly
  in between. For \<open>startRadius = 2\<close> and \<open>endRadius = 6\<close> the intensity at distance 4 is
  \<open>1/2\<close>. The per-pixel sum is the minimum of 1 and the ambient percent plus all light
  intensities whenever the ambient percent is at most 1 or there is at least one light.
\<close>

theorem light_falloff_and_clamped_sum:
  "(d \<le> startRadius l \<longrightarrow> lightIntensity d l = 1) \<and>
   (endRadius l \<le> d \<and> startRadius l < d \<longrightarrow> lightIntensity d l = 0) \<and>
   (startRadius l < d \<and> d < endRadius l \<longrightarrow>
      lightIntensity d l = 1 - (d - startRadius l) / (endRadius l - startRadius l)) \<and>
   lightIntensity 4 \<lparr> worldPoint = c, startRadius = 2, endRadius = 6 \<rparr> = 1 / 2 \<and>
   (ambientPercent \<le> 1 \<or> ls \<noteq> [] \<longrightarrow>
      computeLightIntensitySum PerPixel meshLightPercent ambientPercent ls pt =
        min 1 (ambientPercent + sum_list (map (lightIntensityAt pt) ls)))"
proof -
  have a: "d \<le> startRadius l \<longrightarrow> lightIntensity d l = 1"
    by (simp add: lightIntensity_def)
  have b: "endRadius l \<le> d \<and> startRadius l < d \<longrightarrow> lightIntensity d l = 0"
    by (simp add: lightIntensity_def)
  have c: "startRadius l < d \<and> d < endRadius l \<longrightarrow>
      lightIntensity d l = 1 - (d - startRadius l) / (endRadius l - startRadius l)"
    using lightIntensity_ramp by blast
  have e: "lightIntensity 4 \<lparr> worldPoint = c, startRadius = 2, endRadius = 6 \<rparr> = 1 / 2"
    by (simp add: lightIntensity_def std_clamp_def)
  have f: "ambientPercent \<le> 1 \<or> ls \<noteq> [] \<longrightarrow>
      computeLightIntensitySum PerPixel meshLightPercent ambientPercent ls pt =
        min 1 (ambientPercent + sum_list (map (lightIntensityAt pt) ls))"
    using accumulateLights_clamped[of ambientPercent ls pt]
    by (simp add: computeLightIntensitySum_def)
  from a b c e f show ?thesis by blast
qed

text \<open>
  The claim as stated fails where both of its first two cases apply: a light with
  \<open>startRadius = endRadius = 2\<close> at distance 2 contributes 1, not 0, since the source tests
  \<open>lightDistance <= startRadius\<close> first. With no light, an ambient percent above 1 is
  not clamped, since the clamp is inside the light loop.
\<close>

theorem light_falloff_counterexample:
  "lightIntensity 2 \<lparr> worldPoint = Double3 2 0 0, startRadius = 2, endRadius = 2 \<rparr> = 1 \<and>
   lightIntensity 2 \<lparr> worldPoint = Double3 2 0 0, startRadius = 2, endRadius = 2 \<rparr> \<noteq> 0 \<and>
   endRadius \<lparr> worldPoint = Double3 2 0 0, startRadius = 2, endRadius = 2 \<rparr> \<le> 2 \<and>
   computeLightIntensitySum PerPixel 0 (3 / 2) [] (Double3 0 0 0) = 3 / 2"
  by (simp add: lightIntensity_def computeLightIntensitySum_def)

theorem light_falloff_and_clamped_sum_witness:
  "lightIntensity 1 \<lparr> worldPoint = Double3 0 0 0, startRadius = 2, endRadius = 6 \<rparr> = 1 \<and>
   lightIntensity 7 \<lparr> worldPoint = Double3 0 0 0, startRadius = 2, endRadius = 6 \<rparr> = 0 \<and>
   lightIntensity 3 \<lparr> worldPoint = Double3 0 0 0, startRadius = 2, endRadius = 6 \<rparr> = 3 / 4 \<and>
   computeLightIntensitySum PerPixel 0 (1 / 4)
     [\<lparr> worldPoint = Double3 0 0 0, startRadius = 2, endRadius = 6 \<rparr>,
      \<lparr> worldPoint = Double3 3 0 0, startRadius = 2, endRadius = 6 \<rparr>] (Double3 0 0 0) = 1"
proof -
  let ?l = "\<lparr> worldPoint = Double3 0 0 0, startRadius = 2, endRadius = 6 \<rparr>"
  let ?m = "\<lparr> worldPoint = Double3 3 0 0, startRadius = 2, endRadius = 6 \<rparr>"
  have 1: "lightIntensity 1 ?l = 1"
    using light_falloff_and_clamped_sum[of 1 ?l] by simp
  have 2: "lightIntensity 7 ?l = 0"
    using light_falloff_and_clamped_sum[of 7 ?l] by simp
  have 3: "lightIntensity 3 ?l = 3 / 4"
    using light_falloff_and_clamped_sum[of 3 ?l] by simp
  have 4: "computeLightIntensitySum PerPixel 0 (1 / 4) [?l, ?m] (Double3 0 0 0) = 1"
    using light_falloff_and_clamped_sum[of 1 ?l "Double3 0 0 0" "1 / 4" "[?l, ?m]" 0 "Double3 0 0 0"]
    by (simp add: lightIntensityAt_def Double3_length_def Double3_sub_def lightIntensity_def
        std_clamp_def)
  from 1 2 3 4 show ?thesis by blast
qed


subsection \<open>Light levels\<close>
















section \<open>Properties of the pixel shaders\<close>

lemma runPixelShader_transparent:
  assumes "isAlphaTestedShader pixelShaderType"
    and "alphaTestTexel pixelShaderType pixelShaderParam0 shaderPerspective shaderTexture0
           = PALETTE_INDEX_TRANSPARENT utils"
  shows "runPixelShader utils pixelShaderType pixelShaderParam0 shaderPerspective shaderTexture0
           shaderTexture1 shaderHorizonMirror shaderLighting frameBuffer = frameBuffer"
  using assms
  by (cases pixelShaderType)
    (simp_all add: isAlphaTestedShader_def alphaTestTexel_def runPixelShader_def Let_def
      PixelShader_AlphaTested_def PixelShader_AlphaTestedWithVariableTexCoordUMin_def
      PixelShader_AlphaTestedWithVariableTexCoordVMin_def
      PixelShader_AlphaTestedWithPaletteIndexLookup_def
      PixelShader_AlphaTestedWithLightLevelColor_def
      PixelShader_AlphaTestedWithLightLevelOpacity_def
      PixelShader_AlphaTestedWithPreviousBrightnessLimit_def
      PixelShader_AlphaTestedWithHorizonMirror_def)

lemma shadePixel_transparent:
  assumes "isAlphaTestedShader pixelShaderType"
    and "alphaTestTexel pixelShaderType pixelShaderParam0 shaderPerspective shaderTexture0
           = PALETTE_INDEX_TRANSPARENT utils"
  shows "shadePixel utils pixelShaderType pixelShaderParam0 shaderPerspective shaderTexture0
           shaderTexture1 shaderHorizonMirror shaderLighting st =
         st\<lparr> colorBuffer := (colorBuffer st)[nat (pixelIndex (shaderFrameBuffer st)) :=
                   paletteColors (palette (shaderFrameBuffer st))
                     ! unat (colors (shaderFrameBuffer st) ! nat (pixelIndex (shaderFrameBuffer st)))],
             g_totalColorWrites := g_totalColorWrites st + 1 \<rparr>"
  by (simp add: shadePixel_def Let_def runPixelShader_transparent[OF assms])

text \<open>
  Claim C1, as amended. When the texel that an \<open>AlphaTested*\<close> shader samples is the
  transparent sentinel, shading the pixel leaves the palette-index buffer and the depth
  buffer unchanged; the 32-bit colour buffer entry of the pixel is rewritten with the
  palette colour of the pixel's unchanged palette index, and one colour write is counted.
\<close>

theorem alpha_tested_transparent_pixel:
  assumes "isAlphaTestedShader pixelShaderType"
    and "alphaTestTexel pixelShaderType pixelShaderParam0 shaderPerspective shaderTexture0
           = PALETTE_INDEX_TRANSPARENT utils"
  shows "colors (shaderFrameBuffer (shadePixel utils pixelShaderType pixelShaderParam0 shaderPerspective
              shaderTexture0 shaderTexture1 shaderHorizonMirror shaderLighting st)) = colors (shaderFrameBuffer st) \<and>
         depth (shaderFrameBuffer (shadePixel utils pixelShaderType pixelShaderParam0 shaderPerspective
              shaderTexture0 shaderTexture1 shaderHorizonMirror shaderLighting st)) = depth (shaderFrameBuffer st) \<and>
         colorBuffer (shadePixel utils pixelShaderType pixelShaderParam0 shaderPerspective
              shaderTexture0 shaderTexture1 shaderHorizonMirror shaderLighting st) =
           (colorBuffer st)[nat (pixelIndex (shaderFrameBuffer st)) :=
              paletteColors (palette (shaderFrameBuffer st))
                ! unat (colors (shaderFrameBuffer st) ! nat (pixelIndex (shaderFrameBuffer st)))] \<and>
         g_totalColorWrites (shadePixel utils pixelShaderType pixelShaderParam0 shaderPerspective
              shaderTexture0 shaderTexture1 shaderHorizonMirror shaderLighting st) = g_totalColorWrites st + 1"
  by (simp add: shadePixel_transparent[OF assms])

text \<open>
  The claim as stated, that the colour buffer entry is left unchanged and no colour write
  is counted, fails on the first transparent pixel drawn after \<open>ClearFrameBuffers\<close>: the
  colour buffer entry changes from 0 to the palette's entry 0 and the counter from 0 to 1.
\<close>

theorem alpha_tested_transparent_pixel_counterexample:
  "isAlphaTestedShader AlphaTested \<and>
   alphaTestTexel AlphaTested 0 examplePerspective exampleTexture
     = PALETTE_INDEX_TRANSPARENT exampleUtils \<and>
   colorBuffer exampleRasterState = [0] \<and>
   colorBuffer (shadePixel exampleUtils AlphaTested 0 examplePerspective exampleTexture
                  exampleTexture exampleHorizonMirror exampleLighting exampleRasterState) = [0xFF000000] \<and>
   g_totalColorWrites exampleRasterState = 0 \<and>
   g_totalColorWrites (shadePixel exampleUtils AlphaTested 0 examplePerspective exampleTexture
                  exampleTexture exampleHorizonMirror exampleLighting exampleRasterState) = 1"
  by (simp add: isAlphaTestedShader_def alphaTestTexel_def sampleTexel_def exampleTexture_def
      PixelShaderTexture_init_def examplePerspective_def exampleUtils_def static_cast_int_def
      std_clamp_def shadePixel_def runPixelShader_def PixelShader_AlphaTested_def
      exampleRasterState_def Let_def)

theorem alpha_tested_transparent_pixel_witness:
  "colors (shaderFrameBuffer (shadePixel exampleUtils AlphaTested 0 examplePerspective exampleTexture
       exampleTexture exampleHorizonMirror exampleLighting exampleRasterState)) = [0] \<and>
   depth (shaderFrameBuffer (shadePixel exampleUtils AlphaTested 0 examplePerspective exampleTexture
       exampleTexture exampleHorizonMirror exampleLighting exampleRasterState)) = [1] \<and>
   colorBuffer (shadePixel exampleUtils AlphaTested 0 examplePerspective exampleTexture
       exampleTexture exampleHorizonMirror exampleLighting exampleRasterState) = [0xFF000000] \<and>
   g_totalColorWrites (shadePixel exampleUtils AlphaTested 0 examplePerspective exampleTexture
       exampleTexture exampleHorizonMirror exampleLighting exampleRasterState) = 1"
proof -
  have a: "isAlphaTestedShader AlphaTested"
    by (simp add: isAlphaTestedShader_def)
  have b: "alphaTestTexel AlphaTested 0 examplePerspective exampleTexture
     = PALETTE_INDEX_TRANSPARENT exampleUtils"
    by (simp add: alphaTestTexel_def sampleTexel_def exampleTexture_def
      PixelShaderTexture_init_def examplePerspective_def exampleUtils_def static_cast_int_def
      std_clamp_def Let_def)
  show ?thesis
    using alpha_tested_transparent_pixel[OF a b, of exampleTexture exampleHorizonMirror
        exampleLighting exampleRasterState]
    by (simp add: exampleRasterState_def)
qed

section \<open>Properties of the resource pools\<close>

subsection \<open>Creating resources\<close>

lemma pool_tryAlloc_None: "pool_tryAlloc e pool = None \<longleftrightarrow> pool_isExhausted pool"
proof (cases "find (\<lambda>i. pool ! i = None) [0..<length pool]")
  case None
  then have "\<forall>i < length pool. pool ! i \<noteq> None"
    by (auto simp: find_None_iff)
  then have "\<forall>s \<in> set pool. s \<noteq> None"
    by (metis in_set_conv_nth)
  then show ?thesis
    using None by (simp add: pool_tryAlloc_def pool_isExhausted_def list_all_iff)
next
  case (Some i)
  then have "i < length pool" "pool ! i = None"
    by (auto simp: find_Some_iff)
  then have "None \<in> set pool"
    by (metis nth_mem)
  then have "\<not> pool_isExhausted pool"
    by (auto simp: pool_isExhausted_def list_all_iff)
  then show ?thesis
    using Some by (simp add: pool_tryAlloc_def)
qed

lemma samePools_DebugLogError: "samePools r (DebugLogError text numbers r)"
  by (simp add: samePools_def DebugLogError_def)

lemma tryCreateVertexBuffer_false:
  "tryCreateVertexBuffer n c r = Inr (None, r') \<longleftrightarrow>
     0 < n \<and> 2 \<le> c \<and> pool_isExhausted (vertexBuffers r) \<and>
     r' = DebugLogError ''Couldn't allocate vertex buffer ID.'' [] r"
  using pool_tryAlloc_None[of "\<lparr> vertices = [] \<rparr>" "vertexBuffers r"]
  by (auto simp: tryCreateVertexBuffer_def split: option.splits)

lemma tryCreateAttributeBuffer_false:
  "tryCreateAttributeBuffer n c r = Inr (None, r') \<longleftrightarrow>
     0 < n \<and> 2 \<le> c \<and> pool_isExhausted (attributeBuffers r) \<and>
     r' = DebugLogError ''Couldn't allocate attribute buffer ID.'' [] r"
  using pool_tryAlloc_None[of "\<lparr> attributes = [] \<rparr>" "attributeBuffers r"]
  by (auto simp: tryCreateAttributeBuffer_def split: option.splits)

lemma tryCreateIndexBuffer_false:
  "tryCreateIndexBuffer n r = Inr (None, r') \<longleftrightarrow>
     0 < n \<and> n mod 3 = 0 \<and> pool_isExhausted (indexBuffers r) \<and>
     r' = DebugLogError ''Couldn't allocate index buffer ID.'' [] r"
  using pool_tryAlloc_None[of "\<lparr> indices = [] \<rparr>" "indexBuffers r"]
  by (auto simp: tryCreateIndexBuffer_def split: option.splits)

lemma tryCreateObjectTexture_false:
  "tryCreateObjectTexture w h b r = Inr (None, r') \<longleftrightarrow>
     pool_isExhausted (objectTextures r) \<and>
     r' = DebugLogError ''Couldn't allocate object texture ID.'' [] r"
  using pool_tryAlloc_None[of ObjectTexture_default "objectTextures r"]
  by (auto simp: tryCreateObjectTexture_def split: option.splits sum.splits)

lemma tryCreateUniformBuffer_false:
  "tryCreateUniformBuffer n sz al r = Inr (None, r') \<longleftrightarrow>
     0 \<le> n \<and> 0 < sz \<and> 0 < al \<and> pool_isExhausted (uniformBuffers r) \<and>
     r' = DebugLogError ''Couldn't allocate uniform buffer ID.'' [] r"
  using pool_tryAlloc_None[of UniformBuffer_default "uniformBuffers r"]
  by (auto simp: tryCreateUniformBuffer_def split: option.splits)

lemma tryCreateLight_false:
  "tryCreateLight r = Inr (None, r') \<longleftrightarrow>
     pool_isExhausted (lights r) \<and>
     r' = DebugLogError ''Couldn't allocate render light ID.'' [] r"
  using pool_tryAlloc_None[of Light_default "lights r"]
  by (auto simp: tryCreateLight_def split: option.splits)

text \<open>
  Claim C2, as amended. Each \<open>tryCreate*\<close> function returns false exactly when its pool is
  exhausted and the call does not halt in an assertion first: the buffer functions assert
  their dimensions before allocating, \<open>tryCreateObjectTexture\<close> and \<open>tryCreateLight\<close> test
  nothing before allocating. Invalid dimensions are never answered with false. On every
  false return no slot of any pool has changed.
\<close>

theorem tryCreate_false_iff_pool_exhausted:
  "((\<exists>r'. tryCreateVertexBuffer vertexCount componentsPerVertex r = Inr (None, r')) \<longleftrightarrow>
      0 < vertexCount \<and> 2 \<le> componentsPerVertex \<and> pool_isExhausted (vertexBuffers r)) \<and>
   ((\<exists>r'. tryCreateAttributeBuffer vertexCount componentsPerVertex r = Inr (None, r')) \<longleftrightarrow>
      0 < vertexCount \<and> 2 \<le> componentsPerVertex \<and> pool_isExhausted (attributeBuffers r)) \<and>
   ((\<exists>r'. tryCreateIndexBuffer indexCount r = Inr (None, r')) \<longleftrightarrow>
      0 < indexCount \<and> indexCount mod 3 = 0 \<and> pool_isExhausted (indexBuffers r)) \<and>
   ((\<exists>r'. tryCreateObjectTexture w h bytesPerTexel r = Inr (None, r')) \<longleftrightarrow>
      pool_isExhausted (objectTextures r)) \<and>
   ((\<exists>r'. tryCreateUniformBuffer count sz al r = Inr (None, r')) \<longleftrightarrow>
      0 \<le> count \<and> 0 < sz \<and> 0 < al \<and> pool_isExhausted (uniformBuffers r)) \<and>
   ((\<exists>r'. tryCreateLight r = Inr (None, r')) \<longleftrightarrow> pool_isExhausted (lights r)) \<and>
   (\<forall>r'. tryCreateVertexBuffer vertexCount componentsPerVertex r = Inr (None, r') \<or>
         tryCreateAttributeBuffer vertexCount componentsPerVertex r = Inr (None, r') \<or>
         tryCreateIndexBuffer indexCount r = Inr (None, r') \<or>
         tryCreateObjectTexture w h bytesPerTexel r = Inr (None, r') \<or>
         tryCreateUniformBuffer count sz al r = Inr (None, r') \<or>
         tryCreateLight r = Inr (None, r')
       \<longrightarrow> samePools r r')"
  by (simp add: tryCreateVertexBuffer_false tryCreateAttributeBuffer_false
      tryCreateIndexBuffer_false tryCreateObjectTexture_false tryCreateUniformBuffer_false
      tryCreateLight_false)
    (use samePools_DebugLogError in blast)

text \<open>
  The claim as stated, that invalid dimensions make the call return false, fails: with a
  free slot, a uniform buffer of 0 elements is created and true returned; a vertex count
  of 0, an index count of 4 and a texture of width and height 0 halt in \<open>DebugAssert\<close>,
  for the texture after its slot was allocated.
\<close>

theorem tryCreate_invalid_dimensions_counterexample:
  "\<not> pool_isExhausted (uniformBuffers emptyRenderer) \<and>
   tryCreateUniformBuffer 0 4 4 emptyRenderer =
     Inr (Some 0, emptyRenderer\<lparr> uniformBuffers := [Some (UniformBuffer_init 0 4 4)] \<rparr>) \<and>
   tryCreateVertexBuffer 0 3 emptyRenderer = Inl DebugAssertFailed \<and>
   tryCreateIndexBuffer 4 emptyRenderer = Inl DebugAssertFailed \<and>
   tryCreateObjectTexture 0 0 1 emptyRenderer = Inl DebugAssertFailed"
  by (simp add: emptyRenderer_def pool_isExhausted_def tryCreateUniformBuffer_def
      tryCreateVertexBuffer_def tryCreateIndexBuffer_def tryCreateObjectTexture_def
      pool_tryAlloc_def pool_set_def ObjectTexture_init_def)

theorem tryCreate_false_iff_pool_exhausted_witness:
  "(\<exists>r'. tryCreateVertexBuffer 3 3 fullRenderer = Inr (None, r')) \<and>
   (\<exists>r'. tryCreateLight fullRenderer = Inr (None, r')) \<and>
   (\<nexists>r'. tryCreateVertexBuffer 3 3 emptyRenderer = Inr (None, r')) \<and>
   samePools fullRenderer (DebugLogError ''Couldn't allocate render light ID.'' [] fullRenderer)"
proof -
  have f: "pool_isExhausted (vertexBuffers fullRenderer)" "pool_isExhausted (lights fullRenderer)"
    by (simp_all add: fullRenderer_def pool_isExhausted_def)
  have e: "\<not> pool_isExhausted (vertexBuffers emptyRenderer)"
    by (simp add: emptyRenderer_def pool_isExhausted_def)
  have l: "tryCreateLight fullRenderer =
             Inr (None, DebugLogError ''Couldn't allocate render light ID.'' [] fullRenderer)"
    by (simp add: tryCreateLight_def fullRenderer_def pool_tryAlloc_def)
  show ?thesis
    using f e l tryCreate_false_iff_pool_exhausted[of 3 3 fullRenderer 3 1 1 1 1 1 1] tryCreate_false_iff_pool_exhausted[of 3 3 emptyRenderer 3 1 1 1 1 1 1]
    by auto
qed


subsection \<open>Populating buffers\<close>

lemma pool_tryGet_set:
  "pool_tryGet pool h = Some b \<Longrightarrow> pool_tryGet (pool_set pool h b') h = Some b'"
  by (auto simp: pool_tryGet_def pool_set_def split: if_splits)

lemma std_copy_same_length: "length src = length dst \<Longrightarrow> std_copy src dst = src"
  by (simp add: std_copy_def)

lemma populateVertexBuffer_valid:
  assumes "pool_tryGet (vertexBuffers r) h = Some buffer"
  shows "length src \<noteq> length (vertices buffer) \<Longrightarrow>
           populateVertexBuffer h src r =
             Inr (DebugLogError ''Mismatched vertex buffer sizes for ID''
                    [h, int (length src), int (length (vertices buffer))] r)"
    and "length src = length (vertices buffer) \<Longrightarrow>
           \<exists>r'. populateVertexBuffer h src r = Inr r' \<and> debugLog r' = debugLog r \<and>
                pool_tryGet (vertexBuffers r') h = Some (buffer\<lparr> vertices := src \<rparr>)"
  using assms pool_tryGet_set[OF assms]
  by (simp_all add: populateVertexBuffer_def Let_def std_copy_same_length)

lemma populateAttributeBuffer_valid:
  assumes "pool_tryGet (attributeBuffers r) h = Some buffer"
  shows "length src \<noteq> length (attributes buffer) \<Longrightarrow>
           populateAttributeBuffer h src r =
             Inr (DebugLogError ''Mismatched attribute buffer sizes for ID''
                    [h, int (length src), int (length (attributes buffer))] r)"
    and "length src = length (attributes buffer) \<Longrightarrow>
           \<exists>r'. populateAttributeBuffer h src r = Inr r' \<and> debugLog r' = debugLog r \<and>
                pool_tryGet (attributeBuffers r') h = Some (buffer\<lparr> attributes := src \<rparr>)"
  using assms pool_tryGet_set[OF assms]
  by (simp_all add: populateAttributeBuffer_def Let_def std_copy_same_length)

lemma populateIndexBuffer_valid:
  assumes "pool_tryGet (indexBuffers r) h = Some buffer"
  shows "length src \<noteq> length (indices buffer) \<Longrightarrow>
           populateIndexBuffer h src r =
             Inr (DebugLogError ''Mismatched index buffer sizes for ID''
                    [h, int (length src), int (length (indices buffer))] r)"
    and "length src = length (indices buffer) \<Longrightarrow>
           \<exists>r'. populateIndexBuffer h src r = Inr r' \<and> debugLog r' = debugLog r \<and>
                pool_tryGet (indexBuffers r') h = Some (buffer\<lparr> indices := src \<rparr>)"
  using assms pool_tryGet_set[OF assms]
  by (simp_all add: populateIndexBuffer_def Let_def std_copy_same_length)

lemma populateUniformBuffer_valid:
  assumes "pool_tryGet (uniformBuffers r) h = Some buffer"
  shows "int (length src) \<noteq> getValidByteCount buffer \<Longrightarrow>
           populateUniformBuffer h src r =
             Inr (DebugLogError ''Mismatched uniform buffer sizes for ID''
                    [h, int (length src), getValidByteCount buffer] r)"
    and "int (length src) = getValidByteCount buffer \<Longrightarrow>
           \<exists>r'. populateUniformBuffer h src r = Inr r' \<and> debugLog r' = debugLog r \<and>
                pool_tryGet (uniformBuffers r') h =
                  Some (buffer\<lparr> uniformBytes := src @ drop (length src) (uniformBytes buffer) \<rparr>)"
  using assms pool_tryGet_set[OF assms]
  by (simp_all add: populateUniformBuffer_def Let_def std_copy_def)

lemma DebugLogError_effect:
  "vertexBuffers (DebugLogError text numbers r) = vertexBuffers r \<and>
   attributeBuffers (DebugLogError text numbers r) = attributeBuffers r \<and>
   indexBuffers (DebugLogError text numbers r) = indexBuffers r \<and>
   uniformBuffers (DebugLogError text numbers r) = uniformBuffers r \<and>
   debugLog (DebugLogError text numbers r) = debugLog r @ [LogError text numbers] \<and>
   isLogError (LogError text numbers)"
  by (simp add: DebugLogError_def isLogError_def)

text \<open>
  Claim C9. For a populate call on a valid handle: if the incoming count differs from the
  allocated count, the call returns with one error appended to the log and the pool of
  buffers unchanged, so no element was copied; if the counts match, nothing is logged and
  the buffer holds the incoming elements in order. For a uniform buffer the counts are
  byte counts, the allocated one being \<open>getValidByteCount\<close>.
\<close>

theorem populate_strict_size:
  "(pool_tryGet (vertexBuffers r) h = Some vb \<longrightarrow>
      (length vs \<noteq> length (vertices vb) \<longrightarrow>
         (\<exists>r' m. populateVertexBuffer h vs r = Inr r' \<and> vertexBuffers r' = vertexBuffers r \<and>
                 debugLog r' = debugLog r @ [m] \<and> isLogError m)) \<and>
      (length vs = length (vertices vb) \<longrightarrow>
         (\<exists>r'. populateVertexBuffer h vs r = Inr r' \<and> debugLog r' = debugLog r \<and>
               pool_tryGet (vertexBuffers r') h = Some (vb\<lparr> vertices := vs \<rparr>)))) \<and>
   (pool_tryGet (attributeBuffers r) h = Some ab \<longrightarrow>
      (length attrs \<noteq> length (attributes ab) \<longrightarrow>
         (\<exists>r' m. populateAttributeBuffer h attrs r = Inr r' \<and>
                 attributeBuffers r' = attributeBuffers r \<and>
                 debugLog r' = debugLog r @ [m] \<and> isLogError m)) \<and>
      (length attrs = length (attributes ab) \<longrightarrow>
         (\<exists>r'. populateAttributeBuffer h attrs r = Inr r' \<and> debugLog r' = debugLog r \<and>
               pool_tryGet (attributeBuffers r') h = Some (ab\<lparr> attributes := attrs \<rparr>)))) \<and>
   (pool_tryGet (indexBuffers r) h = Some ib \<longrightarrow>
      (length ixs \<noteq> length (indices ib) \<longrightarrow>
         (\<exists>r' m. populateIndexBuffer h ixs r = Inr r' \<and> indexBuffers r' = indexBuffers r \<and>
                 debugLog r' = debugLog r @ [m] \<and> isLogError m)) \<and>
      (length ixs = length (indices ib) \<longrightarrow>
         (\<exists>r'. populateIndexBuffer h ixs r = Inr r' \<and> debugLog r' = debugLog r \<and>
               pool_tryGet (indexBuffers r') h = Some (ib\<lparr> indices := ixs \<rparr>)))) \<and>
   (pool_tryGet (uniformBuffers r) h = Some ub \<longrightarrow>
      (int (length bs) \<noteq> getValidByteCount ub \<longrightarrow>
         (\<exists>r' m. populateUniformBuffer h bs r = Inr r' \<and> uniformBuffers r' = uniformBuffers r \<and>
                 debugLog r' = debugLog r @ [m] \<and> isLogError m)) \<and>
      (int (length bs) = getValidByteCount ub \<longrightarrow>
         (\<exists>r'. populateUniformBuffer h bs r = Inr r' \<and> debugLog r' = debugLog r \<and>
               pool_tryGet (uniformBuffers r') h =
                 Some (ub\<lparr> uniformBytes := bs @ drop (length bs) (uniformBytes ub) \<rparr>))))"
  using populateVertexBuffer_valid[of r h vb vs] populateAttributeBuffer_valid[of r h ab attrs]
    populateIndexBuffer_valid[of r h ib ixs] populateUniformBuffer_valid[of r h ub bs]
    DebugLogError_effect
  by (intro conjI impI) metis+


theorem populate_strict_size_witness:
  "(\<exists>r' m. populateVertexBuffer 0 [4, 5] fullRenderer = Inr r' \<and>
       vertexBuffers r' = vertexBuffers fullRenderer \<and>
       debugLog r' = debugLog fullRenderer @ [m] \<and> isLogError m) \<and>
   (\<exists>r'. populateVertexBuffer 0 [4, 5, 6] fullRenderer = Inr r' \<and>
       debugLog r' = debugLog fullRenderer \<and>
       pool_tryGet (vertexBuffers r') 0 = Some \<lparr> vertices = [4, 5, 6] \<rparr>) \<and>
   (\<exists>r'. populateAttributeBuffer 0 [7, 8] fullRenderer = Inr r' \<and>
       debugLog r' = debugLog fullRenderer \<and>
       pool_tryGet (attributeBuffers r') 0 = Some \<lparr> attributes = [7, 8] \<rparr>) \<and>
   (\<exists>r'. populateIndexBuffer 0 [2, 1, 0] fullRenderer = Inr r' \<and>
       debugLog r' = debugLog fullRenderer \<and>
       pool_tryGet (indexBuffers r') 0 = Some \<lparr> indices = [2, 1, 0] \<rparr>) \<and>
   (\<exists>r' m. populateUniformBuffer 0 [9] fullRenderer = Inr r' \<and>
       uniformBuffers r' = uniformBuffers fullRenderer \<and>
       debugLog r' = debugLog fullRenderer @ [m] \<and> isLogError m)"
proof -
  have v: "pool_tryGet (vertexBuffers fullRenderer) 0 = Some \<lparr> vertices = [1, 2, 3] \<rparr>"
    and a: "pool_tryGet (attributeBuffers fullRenderer) 0 = Some \<lparr> attributes = [1, 2] \<rparr>"
    and i: "pool_tryGet (indexBuffers fullRenderer) 0 = Some \<lparr> indices = [0, 1, 2] \<rparr>"
    and u: "pool_tryGet (uniformBuffers fullRenderer) 0 = Some (UniformBuffer_init 1 2 1)"
    by (simp_all add: fullRenderer_def pool_tryGet_def)
  have n: "int (length [9 :: 8 word]) \<noteq> getValidByteCount (UniformBuffer_init 1 2 1)"
    by (simp add: getValidByteCount_def UniformBuffer_init_def)
  note mismatch = populate_strict_size[where r = fullRenderer and h = 0 and vb = "\<lparr> vertices = [1, 2, 3] \<rparr>"
      and vs = "[4, 5]" and ab = "\<lparr> attributes = [1, 2] \<rparr>" and attrs = "[7, 8]"
      and ib = "\<lparr> indices = [0, 1, 2] \<rparr>" and ixs = "[2, 1, 0]"
      and ub = "UniformBuffer_init 1 2 1" and bs = "[9]"]
  note match = populate_strict_size[where r = fullRenderer and h = 0 and vb = "\<lparr> vertices = [1, 2, 3] \<rparr>"
      and vs = "[4, 5, 6]" and ab = "\<lparr> attributes = [1, 2] \<rparr>" and attrs = "[7, 8]"
      and ib = "\<lparr> indices = [0, 1, 2] \<rparr>" and ixs = "[2, 1, 0]"
      and ub = "UniformBuffer_init 1 2 1" and bs = "[9]"]
  show ?thesis
    using mismatch match v a i u n by simp
qed

section \<open>Winding order under clipping\<close>












end
